theory Spec2Isabelle
  imports Complex_Main "HOL-Library.Word"
begin

section \<open>Numbers and buffers\<close>

text \<open>
  The colour engine of \<^verbatim>\<open>ColorTransfer.tsx\<close> (latest revision, \<^verbatim>\<open>src/unnamed/part_002\<close>).
  A JavaScript \<^verbatim>\<open>number\<close> is modelled as a \<^typ>\<open>real\<close>: in the colour engine
  arithmetic is exact, so the rounding of IEEE doubles, the single-precision rounding of the
  \<^verbatim>\<open>Float32Array\<close> table, \<^verbatim>\<open>NaN\<close> and the infinities are outside the model (the
  rounding of doubles is modelled where a canvas size is computed, see \<open>toDouble\<close>). \<^verbatim>\<open>Math.cbrt\<close> is \<^term>\<open>root 3\<close>,
  \<^verbatim>\<open>Math.sqrt\<close> is \<^term>\<open>sqrt\<close>, \<^verbatim>\<open>Math.round x\<close> is \<^term>\<open>round x\<close> (that is
  \<open>\<lfloor>x + 1/2\<rfloor>\<close>), and \<^verbatim>\<open>Math.pow\<close> is \<^term>\<open>(powr)\<close>, which the source only applies
  to a positive base. An element of a \<^verbatim>\<open>Uint8ClampedArray\<close> is an \<^typ>\<open>8 word\<close>.
\<close>

type_synonym byte = "8 word"

text \<open>Storing a number into a \<^verbatim>\<open>Uint8ClampedArray\<close> clamps it to \<open>[0, 255]\<close>; the
  numbers stored by the source are integers already (results of \<^verbatim>\<open>Math.round\<close>).\<close>

definition toUint8Clamp :: "int \<Rightarrow> byte" where
  "toUint8Clamp v = word_of_int (max 0 (min 255 v))"

section \<open>Colour space converter\<close>

text \<open>\<^verbatim>\<open>TABLE_sRGBToLinear[i]\<close>, filled by the loop over \<open>i = 0 .. 255\<close>.\<close>

definition TABLE_sRGBToLinear :: "byte \<Rightarrow> real" where
  "TABLE_sRGBToLinear i =
     (let x = real (unat i) / 255
      in if x \<le> 0.04045 then x / 12.92 else ((x + 0.055) / 1.055) powr 2.4)"

definition linearToSRGB :: "real \<Rightarrow> int" where
  "linearToSRGB x =
     (let val = (if x \<le> 0.0031308 then x * 12.92 else 1.055 * x powr (1 / 2.4) - 0.055)
      in round (min 255 (max 0 (val * 255))))"

definition rgb2oklab :: "byte \<Rightarrow> byte \<Rightarrow> byte \<Rightarrow> real \<times> real \<times> real" where
  "rgb2oklab r g b =
     (let rL = TABLE_sRGBToLinear r;
          gL = TABLE_sRGBToLinear g;
          bL = TABLE_sRGBToLinear b;
          l1 = 0.4122214708 * rL + 0.5363325363 * gL + 0.0514459929 * bL;
          m1 = 0.2119034982 * rL + 0.6806995451 * gL + 0.1073969566 * bL;
          s1 = 0.0883024619 * rL + 0.2817188376 * gL + 0.6299787005 * bL;
          l2 = root 3 l1;
          m2 = root 3 m1;
          s2 = root 3 s1;
          L = 0.2104542553 * l2 + 0.7936177850 * m2 - 0.0040720468 * s2;
          a = 1.9779984951 * l2 - 2.4285922050 * m2 + 0.4505937099 * s2;
          b_val = 0.0259040371 * l2 + 0.7827717662 * m2 - 0.8086757660 * s2
      in (L, a, b_val))"

definition oklab2rgb :: "real \<Rightarrow> real \<Rightarrow> real \<Rightarrow> int \<times> int \<times> int" where
  "oklab2rgb L a b =
     (let l1 = L + 0.3963377774 * a + 0.2158037573 * b;
          m1 = L - 0.1055613458 * a - 0.0638541728 * b;
          s1 = L - 0.0894841775 * a - 1.2914855480 * b;
          l2 = l1 * l1 * l1;
          m2 = m1 * m1 * m1;
          s2 = s1 * s1 * s1;
          rL = 4.0767416621 * l2 - 3.3077115913 * m2 + 0.2309699292 * s2;
          gL = -1.2684380046 * l2 + 2.6097574011 * m2 - 0.3413193965 * s2;
          bL = -0.0041960863 * l2 - 0.7034186147 * m2 + 1.7076147010 * s2
      in (linearToSRGB rL, linearToSRGB gL, linearToSRGB bL))"

text \<open>The aliases \<^verbatim>\<open>rgb2lab = rgb2oklab\<close> and \<^verbatim>\<open>lab2rgb = oklab2rgb\<close>.\<close>

definition rgb2lab :: "byte \<Rightarrow> byte \<Rightarrow> byte \<Rightarrow> real \<times> real \<times> real" where
  "rgb2lab = rgb2oklab"

definition lab2rgb :: "real \<Rightarrow> real \<Rightarrow> real \<Rightarrow> int \<times> int \<times> int" where
  "lab2rgb = oklab2rgb"

section \<open>Statistics\<close>

text \<open>\<^verbatim>\<open>interface ColorStats\<close>: two triples, indexed \<open>[0]\<close>, \<open>[1]\<close>, \<open>[2]\<close>.\<close>

record ColorStats =
  mean :: "real \<times> real \<times> real"
  std :: "real \<times> real \<times> real"

definition ix0 :: "real \<times> real \<times> real \<Rightarrow> real" where "ix0 t = fst t"
definition ix1 :: "real \<times> real \<times> real \<Rightarrow> real" where "ix1 t = fst (snd t)"
definition ix2 :: "real \<times> real \<times> real \<Rightarrow> real" where "ix2 t = snd (snd t)"

section \<open>Transfer calibration: the prologue of \<^verbatim>\<open>processImageBuffer\<close>\<close>

definition SCALE_CAP :: real where "SCALE_CAP = 3.0"
definition REF_STD_CAP :: real where "REF_STD_CAP = 0.18"
definition BLEND_STD :: real where "BLEND_STD = 0.95"
definition BLEND_MEAN_L :: real where "BLEND_MEAN_L = 0.8"
definition BLEND_MEAN_C :: real where "BLEND_MEAN_C = 0.8"

text \<open>\<^verbatim>\<open>const k = intensity / 114.0\<close>.\<close>

definition intensity_k :: "real \<Rightarrow> real" where
  "intensity_k intensity = intensity / 114.0"

text \<open>\<^verbatim>\<open>crushMinFactor = Math.max(0, 1.0 - (shadowStrength / 100.0) * 1.4)\<close>.\<close>

definition crushMinFactor :: "real \<Rightarrow> real" where
  "crushMinFactor shadowStrength = max 0 (1.0 - (shadowStrength / 100.0) * 1.4)"

text \<open>\<^verbatim>\<open>effectiveRefStdX = Math.min(refStats.std[i], REF_STD_CAP)\<close>.\<close>

definition effectiveRefStd :: "real \<Rightarrow> real" where
  "effectiveRefStd refStd = min refStd REF_STD_CAP"

text \<open>\<^verbatim>\<open>rawScaleX = (tgtStats.std[i] > 0.01) ? Math.min(SCALE_CAP, effectiveRefStdX / tgtStats.std[i]) : 1\<close>.\<close>

definition rawScale :: "real \<Rightarrow> real \<Rightarrow> real" where
  "rawScale refStd tgtStd =
     (if tgtStd > 0.01 then min SCALE_CAP (effectiveRefStd refStd / tgtStd) else 1)"

text \<open>\<^verbatim>\<open>scaleX_std = 1.0 + (rawScaleX - 1.0) * BLEND_STD\<close>.\<close>

definition scale_std :: "real \<Rightarrow> real \<Rightarrow> real" where
  "scale_std refStd tgtStd = 1.0 + (rawScale refStd tgtStd - 1.0) * BLEND_STD"

text \<open>The constants the pixel loop closes over.\<close>

record Coefficients =
  A_L :: real
  B_L :: real
  A_a :: real
  B_a :: real
  A_b :: real
  B_b :: real
  crushMin :: real

definition coefficients :: "ColorStats \<Rightarrow> ColorStats \<Rightarrow> real \<Rightarrow> real \<Rightarrow> Coefficients" where
  "coefficients refStats tgtStats intensity shadowStrength =
     (let k = intensity_k intensity;
          scaleL_std = scale_std (ix0 (std refStats)) (ix0 (std tgtStats));
          scaleA_std = scale_std (ix1 (std refStats)) (ix1 (std tgtStats));
          scaleB_std = scale_std (ix2 (std refStats)) (ix2 (std tgtStats))
      in \<lparr> A_L = 1 + (scaleL_std - 1) * k,
           B_L = (ix0 (mean refStats) - ix0 (mean tgtStats) * scaleL_std) * k * BLEND_MEAN_L,
           A_a = 1 + (scaleA_std - 1) * k,
           B_a = (ix1 (mean refStats) - ix1 (mean tgtStats) * scaleA_std) * k * BLEND_MEAN_C,
           A_b = 1 + (scaleB_std - 1) * k,
           B_b = (ix2 (mean refStats) - ix2 (mean tgtStats) * scaleB_std) * k * BLEND_MEAN_C,
           crushMin = crushMinFactor shadowStrength \<rparr>)"

section \<open>The body of the pixel loop\<close>

text \<open>Contrast lift and shadow crush of the new lightness.\<close>

definition contrastLift :: "real \<Rightarrow> real" where
  "contrastLift l_new = (l_new - 0.5) * 1.1 + 0.5"

definition shadowCrush :: "real \<Rightarrow> real \<Rightarrow> real" where
  "shadowCrush cmf l_new =
     (if l_new < 0.65
      then let crush = cmf + (l_new / 0.65) * (1.0 - cmf) in l_new * crush
      else l_new)"

text \<open>Luminance masking weight, from the original lightness.\<close>

definition maskWeight :: "real \<Rightarrow> real" where
  "maskWeight l =
     (if l > 0.90 then max 0 (1.0 - (l - 0.90) * 10.0)
      else if l < 0.08 then max 0 (l * 12.5)
      else 1.0)"

text \<open>One iteration in the working space: from the original \<open>(l, a, b)\<close> to
  \<open>(l_new, a_final, b_final)\<close>.\<close>

definition transferLab :: "Coefficients \<Rightarrow> real \<times> real \<times> real \<Rightarrow> real \<times> real \<times> real" where
  "transferLab c lab =
     (case lab of (l, a, b) \<Rightarrow>
        let l_new = l * A_L c + B_L c;
            a_new_raw = a * A_a c + B_a c;
            b_new_raw = b * A_b c + B_b c;
            l_new = contrastLift l_new;
            l_new = shadowCrush (crushMin c) l_new;
            weight = maskWeight l;
            a_final = a + (a_new_raw - a) * weight;
            b_final = b + (b_new_raw - b) * weight
        in (l_new, a_final, b_final))"

text \<open>One iteration on the display values: the three numbers the loop stores at
  \<open>i\<close>, \<open>i + 1\<close> and \<open>i + 2\<close>.\<close>

definition transferPixel :: "Coefficients \<Rightarrow> byte \<times> byte \<times> byte \<Rightarrow> int \<times> int \<times> int" where
  "transferPixel c px =
     (case px of (r, g, b) \<Rightarrow>
        case transferLab c (rgb2lab r g b) of (l_new, a_final, b_final) \<Rightarrow>
          lab2rgb l_new a_final b_final)"

section \<open>Image buffers and the pixel transform\<close>

text \<open>
  Pixel arrays are objects that the source shares and mutates, so they live in a store: a
  list of arrays, an array's address being its index. An \<^verbatim>\<open>ImageData\<close> holds the
  address of its \<^verbatim>\<open>data\<close> array and its dimensions; the platform guarantees
  \<open>data.length = 4 * width * height\<close> (\<open>r, g, b, alpha\<close> per pixel, row-major).
\<close>

type_synonym heap = "byte list list"

record ImageData =
  data :: nat
  width :: nat
  height :: nat

definition wf_ImageData :: "heap \<Rightarrow> ImageData \<Rightarrow> bool" where
  "wf_ImageData h img =
     (data img < length h \<and> length (h ! data img) = 4 * width img * height img)"

text \<open>\<^verbatim>\<open>new Uint8ClampedArray(data)\<close>: a fresh array holding a copy of the elements.\<close>

definition new_Uint8ClampedArray :: "heap \<Rightarrow> nat \<Rightarrow> heap \<times> nat" where
  "new_Uint8ClampedArray h src = (h @ [h ! src], length h)"

text \<open>
  \<^verbatim>\<open>for (let i = 0; i < outData.length; i += 4) { ... }\<close> on the array \<open>outData\<close>:
  each iteration reads the elements \<open>i\<close>, \<open>i + 1\<close>, \<open>i + 2\<close> and overwrites them.
  The element \<open>i + 3\<close> (alpha) is neither read nor written.
\<close>

function pixelLoop :: "Coefficients \<Rightarrow> nat \<Rightarrow> byte list \<Rightarrow> byte list" where
  "pixelLoop c i outData =
     (if i < length outData
      then pixelLoop c (i + 4)
             (outData[i := toUint8Clamp (fst (transferPixel c (outData ! i, outData ! (i + 1), outData ! (i + 2)))),
                      i + 1 := toUint8Clamp (fst (snd (transferPixel c (outData ! i, outData ! (i + 1), outData ! (i + 2))))),
                      i + 2 := toUint8Clamp (snd (snd (transferPixel c (outData ! i, outData ! (i + 1), outData ! (i + 2)))))])
      else outData)"
  by pat_completeness auto
termination
  by (relation "measure (\<lambda>(c, i, outData). length outData - i)") auto

text \<open>
  \<^verbatim>\<open>processImageBuffer(imgData, refStats, tgtStats, intensity, shadowStrength = 50)\<close>.
  The last parameter has a default: an omitted argument is \<open>None\<close>.
\<close>

definition processImageBuffer ::
  "heap \<Rightarrow> ImageData \<Rightarrow> ColorStats \<Rightarrow> ColorStats \<Rightarrow> real \<Rightarrow> real option \<Rightarrow> heap \<times> ImageData" where
  "processImageBuffer h imgData refStats tgtStats intensity shadowStrength_arg =
     (let shadowStrength = (case shadowStrength_arg of None \<Rightarrow> 50 | Some s \<Rightarrow> s);
          (h1, outData) = new_Uint8ClampedArray h (data imgData);
          output = \<lparr> data = outData, width = width imgData, height = height imgData \<rparr>;
          c = coefficients refStats tgtStats intensity shadowStrength;
          h2 = h1[outData := pixelLoop c 0 (h1 ! outData)]
      in (h2, output))"

section \<open>Reading a canvas\<close>

text \<open>
  Exceptions are values: a function that can throw returns \<open>Inl\<close> of the exception.
  \<open>IndexSizeError\<close> is the \<^verbatim>\<open>DOMException\<close> of \<^verbatim>\<open>getImageData\<close>, \<open>TypeError\<close> the
  one of reading a property of \<^verbatim>\<open>undefined\<close>.
\<close>

datatype error = IndexSizeError | TypeError

text \<open>
  \<^verbatim>\<open>ctx.getImageData(0, 0, width, height)\<close> on a canvas of that size (\<open>c\<close> is the address
  of the canvas pixels): the platform throws an \<^verbatim>\<open>IndexSizeError\<close> when the width or the
  height of the rectangle is 0, and otherwise returns a fresh \<^verbatim>\<open>ImageData\<close> with a copy
  of the canvas pixels.
\<close>

definition getImageData :: "heap \<Rightarrow> nat \<Rightarrow> nat \<Rightarrow> nat \<Rightarrow> error + heap \<times> ImageData" where
  "getImageData h c w hg =
     (if w = 0 \<or> hg = 0 then Inl IndexSizeError
      else Inr (h @ [h ! c], \<lparr> data = length h, width = w, height = hg \<rparr>))"

section \<open>Statistics extraction\<close>

text \<open>
  \<^verbatim>\<open>computeStats(ctx, width, height)\<close> of the latest revision. Its first statement reads
  the canvas; the loop then pushes one entry per pixel of \<open>data\<close> onto each of three
  arrays (both exclusion tests are commented out in this revision).
\<close>

function statsLoop ::
  "nat \<Rightarrow> byte list \<Rightarrow> real list \<times> real list \<times> real list \<Rightarrow> real list \<times> real list \<times> real list" where
  "statsLoop i dat vals =
     (if i < length dat
      then (case vals of (lVals, aVals, bVals) \<Rightarrow>
              case rgb2lab (dat ! i) (dat ! (i + 1)) (dat ! (i + 2)) of (l, a, bb) \<Rightarrow>
                statsLoop (i + 4) dat (lVals @ [l], aVals @ [a], bVals @ [bb]))
      else vals)"
  by pat_completeness auto
termination
  by (relation "measure (\<lambda>(i, dat, vals). length dat - i)") auto

text \<open>\<^verbatim>\<open>xs.reduce((a, c) => a + c, 0) / n\<close> and
  \<^verbatim>\<open>xs.reduce((a, c) => a + Math.pow(c - m, 2), 0) / n\<close>.\<close>

definition meanOf :: "real list \<Rightarrow> real" where
  "meanOf xs = foldl (\<lambda>a c. a + c) 0 xs / real (length xs)"

definition varOf :: "real list \<Rightarrow> real \<Rightarrow> real" where
  "varOf xs m = foldl (\<lambda>a c. a + (c - m)\<^sup>2) 0 xs / real (length xs)"

text \<open>The statements of \<^verbatim>\<open>computeStats\<close> after the first, as a function of the array
  \<open>data\<close>.\<close>

definition statsOfData :: "byte list \<Rightarrow> ColorStats" where
  "statsOfData dat =
     (case statsLoop 0 dat ([], [], []) of (lVals, aVals, bVals) \<Rightarrow>
        let n = length lVals
        in if n = 0 then \<lparr> mean = (0, 0, 0), std = (1, 1, 1) \<rparr>
           else let meanL = meanOf lVals;
                    meanA = meanOf aVals;
                    meanB = meanOf bVals;
                    varL = varOf lVals meanL;
                    varA = varOf aVals meanA;
                    varB = varOf bVals meanB;
                    stdL = sqrt varL;
                    stdA = sqrt varA;
                    stdB = sqrt varB
                in \<lparr> mean = (meanL, meanA, meanB), std = (stdL, stdA, stdB) \<rparr>)"

text \<open>\<^verbatim>\<open>computeStats\<close>: \<^verbatim>\<open>const imgData = ctx.getImageData(0, 0, width, height)\<close>, which
  may throw, then the rest on \<^verbatim>\<open>imgData.data\<close>.\<close>

definition computeStats :: "heap \<Rightarrow> nat \<Rightarrow> nat \<Rightarrow> nat \<Rightarrow> error + heap \<times> ColorStats" where
  "computeStats h c w hg =
     (case getImageData h c w hg of
        Inl e \<Rightarrow> Inl e
      | Inr (h1, imgData) \<Rightarrow> Inr (h1, statsOfData (h1 ! data imgData)))"

section \<open>Controller: cache, interactive reprocessing, export\<close>

definition RESIZE_LONG_EDGE :: nat where "RESIZE_LONG_EDGE = 3000"

text \<open>\<^verbatim>\<open>interface ImageState\<close>: a decoded image; \<open>element\<close> is the address of its pixels.\<close>

record ImageState =
  file_name :: string
  url :: string
  element :: nat
  img_width :: nat
  img_height :: nat

text \<open>\<^verbatim>\<open>interface ResultState\<close>. The data URL produced by \<^verbatim>\<open>canvas.toDataURL\<close> is
  represented by the pixels it encodes.\<close>

record ResultState =
  name :: string
  originalUrl :: string
  resultUrl :: "byte list"
  intensity :: real
  shadow :: real
  res_id :: nat

text \<open>A canvas with its 2D context (\<open>ctx\<close> is the address of the canvas pixels), and an
  entry of \<^verbatim>\<open>imageCache\<close>.\<close>

record Canvas =
  ctx :: nat
  canvas_width :: nat
  canvas_height :: nat

record CacheEntry = Canvas +
  tgtStats :: ColorStats
  refStats :: ColorStats

text \<open>The closure that \<^verbatim>\<open>setTimeout\<close> holds for one image: which slider moved, the new
  value, and the \<^verbatim>\<open>targets\<close> and \<^verbatim>\<open>results\<close> of the render that created it.\<close>

datatype Job = IntensityJob real | ShadowJob real

record Pending =
  job :: Job
  seen_targets :: "ImageState list"
  seen_results :: "ResultState list"

record AppState =
  reference :: "ImageState option"
  targets :: "ImageState list"
  results :: "ResultState list"
  imageCache :: "nat \<rightharpoonup> CacheEntry"
  workerRef :: "nat \<rightharpoonup> Pending"
  errorMessage :: "string option"
  store :: heap

text \<open>
  The size of a resized canvas is decided by the rounding of doubles: the quotient and the
  product of \<^verbatim>\<open>Math.round(height * (longEdge / width))\<close> are each rounded to the nearest
  double before \<^verbatim>\<open>Math.round\<close> sees them. \<open>toDouble x\<close> is the double nearest to \<open>x\<close>,
  ties to the even significand (53 bits), for \<open>x\<close> in the normal range; image dimensions,
  which are integers below \<open>2^53\<close>, are doubles already.
\<close>

definition roundTiesToEven :: "real \<Rightarrow> int" where
  "roundTiesToEven q =
     (let f = \<lfloor>q\<rfloor>; r = q - of_int f
      in if r < 1 / 2 then f else if 1 / 2 < r then f + 1 else if even f then f else f + 1)"

definition toDouble :: "real \<Rightarrow> real" where
  "toDouble x =
     (if x = 0 then 0
      else let e = \<lfloor>log 2 \<bar>x\<bar>\<rfloor> - 52
           in of_int (roundTiesToEven (x / 2 powi e)) * 2 powi e)"

text \<open>
  \<^verbatim>\<open>resizeImageCanvas(img, longEdge)\<close>. The resampling done by \<^verbatim>\<open>ctx.drawImage\<close> is the
  browser's; it is the parameter \<open>draw\<close> (source pixels, source size, canvas size).
\<close>

definition resizeImageCanvas ::
  "(byte list \<Rightarrow> nat \<times> nat \<Rightarrow> nat \<times> nat \<Rightarrow> byte list) \<Rightarrow> heap \<Rightarrow> ImageState \<Rightarrow> nat \<Rightarrow> heap \<times> Canvas" where
  "resizeImageCanvas draw h img longEdge =
     (let w = img_width img;
          hg = img_height img;
          (w', hg') =
            (if w > longEdge \<or> hg > longEdge
             then (if w > hg
                   then (longEdge, nat (round (toDouble (real hg * toDouble (real longEdge / real w)))))
                   else (nat (round (toDouble (real w * toDouble (real longEdge / real hg)))), longEdge))
             else (w, hg))
      in (h @ [draw (h ! element img) (w, hg) (w', hg')],
          \<lparr> ctx = length h, canvas_width = w', canvas_height = hg' \<rparr>))"

subsection \<open>Slider handlers\<close>

text \<open>
  \<^verbatim>\<open>handleIntensityChange(id, val)\<close> and \<^verbatim>\<open>handleShadowChange(id, val)\<close>: the slider
  value is written into \<open>results\<close> at once, and the re-processing is left to a timer; a
  timer already pending for the same \<open>id\<close> is cleared, so the new closure replaces it.
\<close>

definition handleIntensityChange :: "AppState \<Rightarrow> nat \<Rightarrow> real \<Rightarrow> AppState" where
  "handleIntensityChange s i val =
     s\<lparr> results := map (\<lambda>r. if res_id r = i then r\<lparr> intensity := val \<rparr> else r) (results s),
        workerRef := (workerRef s)(i \<mapsto>
          \<lparr> job = IntensityJob val, seen_targets = targets s, seen_results = results s \<rparr>) \<rparr>"

definition handleShadowChange :: "AppState \<Rightarrow> nat \<Rightarrow> real \<Rightarrow> AppState" where
  "handleShadowChange s i val =
     s\<lparr> results := map (\<lambda>r. if res_id r = i then r\<lparr> shadow := val \<rparr> else r) (results s),
        workerRef := (workerRef s)(i \<mapsto>
          \<lparr> job = ShadowJob val, seen_targets = targets s, seen_results = results s \<rparr>) \<rparr>"

text \<open>
  The body of the timer callback. \<^verbatim>\<open>if (!target || !imageCache.current[id]) return;\<close>
  leaves everything as it is; otherwise the cached preview is processed again with the
  moved slider's new value and the other slider's value as the closure saw it
  (\<^verbatim>\<open>resInfo?.shadow ?? 50\<close>, \<^verbatim>\<open>resInfo?.intensity ?? 50\<close>). The callback has no
  \<^verbatim>\<open>try\<close>: an exception of the canvas read ends it before anything was changed.
\<close>

definition reprocess :: "AppState \<Rightarrow> nat \<Rightarrow> Pending \<Rightarrow> AppState" where
  "reprocess s i p =
     (if \<not> i < length (seen_targets p) \<or> imageCache s i = None then s
      else
        let e = the (imageCache s i);
            resInfo = find (\<lambda>r. res_id r = i) (seen_results p);
            (currentIntensity, currentShadow) =
              (case job p of
                 IntensityJob val \<Rightarrow> (val, (case resInfo of None \<Rightarrow> 50 | Some r \<Rightarrow> shadow r))
               | ShadowJob val \<Rightarrow> ((case resInfo of None \<Rightarrow> 50 | Some r \<Rightarrow> intensity r), val))
        in (case getImageData (store s) (ctx e) (canvas_width e) (canvas_height e) of
              Inl err \<Rightarrow> s
            | Inr (h1, imgData) \<Rightarrow>
                let (h2, processed) =
                      processImageBuffer h1 imgData (refStats e) (tgtStats e) currentIntensity (Some currentShadow)
                in s\<lparr> results := map (\<lambda>r. if res_id r = i then r\<lparr> resultUrl := h2 ! data processed \<rparr> else r)
                                     (results s),
                      store := h2 \<rparr>))"

text \<open>The timer of image \<open>i\<close> fires, if one is pending.\<close>

definition timerFires :: "AppState \<Rightarrow> nat \<Rightarrow> AppState" where
  "timerFires s i =
     (case workerRef s i of
        None \<Rightarrow> s
      | Some p \<Rightarrow> reprocess (s\<lparr> workerRef := (workerRef s)(i := None) \<rparr>) i p)"

subsection \<open>Export\<close>

text \<open>
  One iteration of the loop of \<^verbatim>\<open>handleDownloadZip\<close>, from the resizing on: the target is
  resized to the export edge, its statistics are taken at that size, and
  \<^verbatim>\<open>processImageBuffer(imgData, refStats, tgtStats, res.intensity)\<close> is called with four
  arguments. An exception of either canvas read leaves the iteration.
\<close>

definition exportImage ::
  "(byte list \<Rightarrow> nat \<times> nat \<Rightarrow> nat \<times> nat \<Rightarrow> byte list) \<Rightarrow> heap \<Rightarrow> ColorStats \<Rightarrow> ImageState \<Rightarrow> ResultState
     \<Rightarrow> error + heap \<times> ImageData" where
  "exportImage draw h refSt tgt res =
     (let (h1, tgtResized) = resizeImageCanvas draw h tgt RESIZE_LONG_EDGE
      in case computeStats h1 (ctx tgtResized) (canvas_width tgtResized) (canvas_height tgtResized) of
           Inl e \<Rightarrow> Inl e
         | Inr (h2, tgtSt) \<Rightarrow>
             (case getImageData h2 (ctx tgtResized) (canvas_width tgtResized) (canvas_height tgtResized) of
                Inl e \<Rightarrow> Inl e
              | Inr (h3, imgData) \<Rightarrow>
                  Inr (processImageBuffer h3 imgData refSt tgtSt (intensity res) None)))"

text \<open>
  The loop over the targets, \<open>res = results[i]\<close>. Reading \<^verbatim>\<open>res.name\<close> of a missing
  \<open>results[i]\<close> throws a \<^verbatim>\<open>TypeError\<close>, and an exception of an iteration leaves the
  loop. The result is the list of processed pixel arrays, in order.
\<close>

fun zipLoop ::
  "(byte list \<Rightarrow> nat \<times> nat \<Rightarrow> nat \<times> nat \<Rightarrow> byte list) \<Rightarrow> ColorStats \<Rightarrow> ResultState list
     \<Rightarrow> nat \<Rightarrow> ImageState list \<Rightarrow> heap \<Rightarrow> error + heap \<times> byte list list" where
  "zipLoop draw refSt ress i [] h = Inr (h, [])"
| "zipLoop draw refSt ress i (tgt # tgts) h =
     (if \<not> i < length ress then Inl TypeError
      else case exportImage draw h refSt tgt (ress ! i) of
             Inl e \<Rightarrow> Inl e
           | Inr (h', processed) \<Rightarrow>
               (case zipLoop draw refSt ress (i + 1) tgts h' of
                  Inl e \<Rightarrow> Inl e
                | Inr (h'', files) \<Rightarrow> Inr (h'', (h' ! data processed) # files)))"

text \<open>\<^verbatim>\<open>TRANSLATIONS.en.msgZipFail\<close>, and \<^verbatim>\<open>handleDownloadZip\<close>: everything after the
  guard runs inside \<^verbatim>\<open>try\<close>, and the \<^verbatim>\<open>catch\<close> turns any exception into that message.\<close>

definition msgZipFail :: string where
  "msgZipFail = ''ZIP creation failed''"

definition handleDownloadZip ::
  "(byte list \<Rightarrow> nat \<times> nat \<Rightarrow> nat \<times> nat \<Rightarrow> byte list) \<Rightarrow> AppState \<Rightarrow> AppState \<times> byte list list" where
  "handleDownloadZip draw s =
     (case reference s of
        None \<Rightarrow> (s, [])
      | Some rf \<Rightarrow>
          if targets s = [] \<or> results s = [] then (s, [])
          else
            let (h1, refResized) = resizeImageCanvas draw (store s) rf RESIZE_LONG_EDGE
            in (case computeStats h1 (ctx refResized) (canvas_width refResized) (canvas_height refResized) of
                  Inl e \<Rightarrow> (s\<lparr> errorMessage := Some msgZipFail, store := h1 \<rparr>, [])
                | Inr (h2, refSt) \<Rightarrow>
                    (case zipLoop draw refSt (results s) 0 (targets s) h2 of
                       Inl e \<Rightarrow> (s\<lparr> errorMessage := Some msgZipFail, store := h2 \<rparr>, [])
                     | Inr (h3, files) \<Rightarrow> (s\<lparr> store := h3 \<rparr>, files))))"

subsection \<open>The earlier revision of the extractor\<close>

text \<open>
  \<^verbatim>\<open>computeStats\<close> of \<^verbatim>\<open>src/app/_components/ColorTransfer.tsx\<close>, with that file's own
  converter (a logarithmic cone space): here both exclusion tests are live code. As for
  the latest revision, \<open>statsOfData_legacy\<close> stands for the statements after the canvas
  read.
\<close>

definition sRGBToLinear_legacy :: "byte \<Rightarrow> real" where
  "sRGBToLinear_legacy x0 =
     (let x = real (unat x0) / 255
      in if x \<le> 0.04045 then x / 12.92 else ((x + 0.055) / 1.055) powr 2.4)"

definition rgb2lab_legacy :: "byte \<Rightarrow> byte \<Rightarrow> byte \<Rightarrow> real \<times> real \<times> real" where
  "rgb2lab_legacy r0 g0 b0 =
     (let r = sRGBToLinear_legacy r0;
          g = sRGBToLinear_legacy g0;
          b = sRGBToLinear_legacy b0;
          EPSILON = 1 / 10 ^ 4;
          L = max EPSILON (0.3811 * r + 0.5783 * g + 0.0402 * b);
          M = max EPSILON (0.1967 * r + 0.7244 * g + 0.0782 * b);
          S = max EPSILON (0.0241 * r + 0.1288 * g + 0.8444 * b);
          l1 = log 10 L;
          m1 = log 10 M;
          s1 = log 10 S;
          l = 0.5774 * l1 + 0.5774 * m1 + 0.5774 * s1;
          a = 0.4082 * l1 + 0.4082 * m1 + (- 0.8165) * s1;
          b1 = 0.7071 * l1 + (- 0.7071) * m1 + 0.0000 * s1
      in (l, a, b1))"

function statsLoop_legacy ::
  "nat \<Rightarrow> byte list \<Rightarrow> real list \<times> real list \<times> real list \<Rightarrow> real list \<times> real list \<times> real list" where
  "statsLoop_legacy i dat vals =
     (if i < length dat
      then (let r = dat ! i; g = dat ! (i + 1); b = dat ! (i + 2)
            in if r > 250 \<and> g > 250 \<and> b > 250 then statsLoop_legacy (i + 4) dat vals
               else if r < 5 \<and> g < 5 \<and> b < 5 then statsLoop_legacy (i + 4) dat vals
               else (case vals of (lVals, aVals, bVals) \<Rightarrow>
                       case rgb2lab_legacy r g b of (l, a, bb) \<Rightarrow>
                         statsLoop_legacy (i + 4) dat (lVals @ [l], aVals @ [a], bVals @ [bb])))
      else vals)"
  by pat_completeness auto
termination
  by (relation "measure (\<lambda>(i, dat, vals). length dat - i)") auto

definition statsOfData_legacy :: "byte list \<Rightarrow> ColorStats" where
  "statsOfData_legacy dat =
     (case statsLoop_legacy 0 dat ([], [], []) of (lVals, aVals, bVals) \<Rightarrow>
        let n = length lVals
        in if n = 0 then \<lparr> mean = (0, 0, 0), std = (1, 1, 1) \<rparr>
           else let meanL = meanOf lVals;
                    meanA = meanOf aVals;
                    meanB = meanOf bVals;
                    varL = varOf lVals meanL;
                    varA = varOf aVals meanA;
                    varB = varOf bVals meanB
                in \<lparr> mean = (meanL, meanA, meanB), std = (sqrt varL, sqrt varA, sqrt varB) \<rparr>)"

definition computeStats_legacy :: "heap \<Rightarrow> nat \<Rightarrow> nat \<Rightarrow> nat \<Rightarrow> error + heap \<times> ColorStats" where
  "computeStats_legacy h c w hg =
     (case getImageData h c w hg of
        Inl e \<Rightarrow> Inl e
      | Inr (h1, imgData) \<Rightarrow> Inr (h1, statsOfData_legacy (h1 ! data imgData)))"

subsection \<open>The extractor as the specification words it\<close>

text \<open>
  The specification's extractor takes a flag \<open>exclude_extremes\<close>: when it is set, pixels
  whose three channels are all within a few counts of 0 or of 255 are left out, and
  otherwise every pixel is sampled. \<open>pixelsOf\<close> lists the pixels of an array; the
  thresholds are the ones of the source's own tests.
\<close>

fun pixelsOf :: "byte list \<Rightarrow> (byte \<times> byte \<times> byte) list" where
  "pixelsOf (r # g # b # a # rest) = (r, g, b) # pixelsOf rest"
| "pixelsOf rest = []"

definition spec_extreme :: "byte \<times> byte \<times> byte \<Rightarrow> bool" where
  "spec_extreme px = (case px of (r, g, b) \<Rightarrow> (r > 250 \<and> g > 250 \<and> b > 250) \<or> (r < 5 \<and> g < 5 \<and> b < 5))"

definition spec_population :: "bool \<Rightarrow> byte list \<Rightarrow> (byte \<times> byte \<times> byte) list" where
  "spec_population exclude_extremes dat =
     (if exclude_extremes then filter (\<lambda>px. \<not> spec_extreme px) (pixelsOf dat) else pixelsOf dat)"

text \<open>The three arrays of working-space values of a list of pixels.\<close>

definition labs :: "(byte \<Rightarrow> byte \<Rightarrow> byte \<Rightarrow> real \<times> real \<times> real) \<Rightarrow> (byte \<times> byte \<times> byte) list
   \<Rightarrow> real list \<times> real list \<times> real list" where
  "labs conv pxs = (map (\<lambda>(r, g, b). fst (conv r g b)) pxs,
                    map (\<lambda>(r, g, b). fst (snd (conv r g b))) pxs,
                    map (\<lambda>(r, g, b). snd (snd (conv r g b))) pxs)"

section \<open>Concrete inputs\<close>

text \<open>The fallback statistics, and a state in which results are on display while the
  cache is empty (as between \<^verbatim>\<open>setImageCache({})\<close> at the start of a new batch and the
  caching of the first image).\<close>

definition fallbackStats :: ColorStats where
  "fallbackStats = \<lparr> mean = (0, 0, 0), std = (1, 1, 1) \<rparr>"

text \<open>The statistics of an all-black image, and statistics with a lightness mean of 1.\<close>

definition blackStats :: ColorStats where
  "blackStats = \<lparr> mean = (0, 0, 0), std = (0, 0, 0) \<rparr>"

definition brightStats :: ColorStats where
  "brightStats = \<lparr> mean = (1, 0, 0), std = (0, 0, 0) \<rparr>"

definition img0 :: ImageState where
  "img0 = \<lparr> file_name = ''a.jpg'', url = ''blob:a'', element = 0, img_width = 1, img_height = 1 \<rparr>"

definition res0 :: ResultState where
  "res0 = \<lparr> name = ''a.jpg'', originalUrl = ''blob:a'', resultUrl = [0, 0, 0, 255],
            intensity = 50, shadow = 50, res_id = 0 \<rparr>"

definition uncached :: AppState where
  "uncached = \<lparr> reference = Some img0, targets = [img0], results = [res0], imageCache = Map.empty,
      workerRef = Map.empty, errorMessage = None, store = [[0, 0, 0, 255]] \<rparr>"

text \<open>A \<^verbatim>\<open>drawImage\<close> that copies the source pixels, as for a source and a canvas of the
  same size; and a state after a batch in which the reference and the only target are the
  same image of one dark grey pixel: the preview canvas (array 1, a copy of the image,
  array 0) and both statistics are cached.\<close>

definition copyDraw :: "byte list \<Rightarrow> nat \<times> nat \<Rightarrow> nat \<times> nat \<Rightarrow> byte list" where
  "copyDraw px src dst = px"

definition cached :: AppState where
  "cached = \<lparr> reference = Some img0, targets = [img0], results = [res0],
      imageCache = [0 \<mapsto> \<lparr> ctx = 1, canvas_width = 1, canvas_height = 1,
                                tgtStats = statsOfData [10, 10, 10, 255], refStats = statsOfData [10, 10, 10, 255] \<rparr>],
      workerRef = Map.empty, errorMessage = None, store = [[10, 10, 10, 255], [10, 10, 10, 255]] \<rparr>"

section \<open>Basic facts\<close>

declare pixelLoop.simps [simp del]
declare statsLoop.simps [simp del]
declare statsLoop_legacy.simps [simp del]

subsection \<open>The pixel loop\<close>

lemma pixelLoop_length: "length (pixelLoop c i out) = length out"
  by (induction c i out rule: pixelLoop.induct) (subst pixelLoop.simps, simp)

lemma pixelLoop_alpha: "i mod 4 = 0 \<Longrightarrow> j mod 4 = 3 \<Longrightarrow> pixelLoop c i out ! j = out ! j"
proof (induction c i out rule: pixelLoop.induct)
  case (1 c i out)
  have ne: "i \<noteq> j" "i + 1 \<noteq> j" "i + 2 \<noteq> j" using 1(2,3) by presburger+
  show ?case
  proof (cases "i < length out")
    case True
    have "(i + 4) mod 4 = 0" using 1(2) by presburger
    from 1(1)[OF True this 1(3)] ne True show ?thesis
      by (subst pixelLoop.simps) simp
  next
    case False
    then show ?thesis by (subst pixelLoop.simps) simp
  qed
qed

lemma processImageBuffer_unfold:
  "processImageBuffer h imgData refSt tgtSt inten sh =
     ((h @ [h ! data imgData])[length h :=
         pixelLoop (coefficients refSt tgtSt inten (case sh of None \<Rightarrow> 50 | Some s \<Rightarrow> s)) 0 (h ! data imgData)],
      \<lparr> data = length h, width = width imgData, height = height imgData \<rparr>)"
  by (simp add: processImageBuffer_def new_Uint8ClampedArray_def Let_def)

subsection \<open>A black pixel\<close>

lemma black_lab: "rgb2lab 0 0 0 = (0, 0, 0)"
  by (simp add: rgb2lab_def rgb2oklab_def TABLE_sRGBToLinear_def)

lemma lin_small: "x < 15 / 100000 \<Longrightarrow> linearToSRGB x = 0"
proof -
  assume a: "x < 15 / 100000"
  define w :: real where "w = min 255 (max 0 (x * 12.92 * 255))"
  have "0 \<le> w" "w < 1/2" using a by (auto simp: w_def)
  then have "round w = 0" unfolding round_def by (simp add: floor_eq_iff)
  moreover have "linearToSRGB x = round w" using a by (simp add: linearToSRGB_def w_def)
  ultimately show ?thesis by simp
qed

lemma black_tp: "transferPixel (coefficients fallbackStats fallbackStats 50 50) (0, 0, 0) = (0, 0, 0)"
  apply (simp add: transferPixel_def black_lab transferLab_def coefficients_def fallbackStats_def
      intensity_k_def scale_std_def rawScale_def ix0_def ix1_def ix2_def BLEND_STD_def BLEND_MEAN_L_def BLEND_MEAN_C_def
      crushMinFactor_def contrastLift_def shadowCrush_def maskWeight_def Let_def lab2rgb_def oklab2rgb_def)
  apply (simp add: lin_small)
  done

lemma black_image: "processImageBuffer [[0,0,0,255]] \<lparr> data = 0, width = 1, height = 1 \<rparr> fallbackStats fallbackStats 50 (Some 50)
   = ([[0,0,0,255],[0,0,0,255]], \<lparr> data = 1, width = 1, height = 1 \<rparr>)"
  apply (simp add: processImageBuffer_def new_Uint8ClampedArray_def Let_def)
  apply (subst pixelLoop.simps)
  apply (simp add: black_tp toUint8Clamp_def)
  apply (subst pixelLoop.simps)
  apply simp
  done

subsection \<open>Scale, shadow curve and coefficients\<close>

lemma shadowCrush_no_crush: "shadowCrush 1 l = l"
  by (simp add: shadowCrush_def)

lemma shadowCrush_diff:
  assumes "l < 0.65"
  shows "shadowCrush c l - shadowCrush c' l = l * (1 - l / 0.65) * (c - c')"
  using assms by (simp add: shadowCrush_def Let_def) (simp add: field_simps)

lemma crushMinFactor_50: "s \<noteq> 50 \<Longrightarrow> crushMinFactor s \<noteq> crushMinFactor 50"
  by (auto simp add: crushMinFactor_def max_def split: if_splits)

lemma shadowCrush_differs:
  assumes "s \<noteq> 50" "0 < l" "l < 0.65"
  shows "shadowCrush (crushMinFactor s) l \<noteq> shadowCrush (crushMinFactor 50) l"
proof -
  have "l * (1 - l / 0.65) \<noteq> 0" using assms(2,3) by auto
  moreover have "crushMinFactor s - crushMinFactor 50 \<noteq> 0" using crushMinFactor_50 [OF assms(1)] by simp
  ultimately have "shadowCrush (crushMinFactor s) l - shadowCrush (crushMinFactor 50) l \<noteq> 0"
    unfolding shadowCrush_diff [OF assms(3)] by simp
  then show ?thesis by simp
qed

lemma rawScale_nonneg: "0 \<le> refStd \<Longrightarrow> 0 \<le> rawScale refStd tgtStd"
  by (auto simp add: rawScale_def effectiveRefStd_def REF_STD_CAP_def SCALE_CAP_def min_def)

lemma A_L_pos:
  assumes "0 \<le> inten" "inten \<le> 100" "0 \<le> ix0 (std refSt)"
  shows "0 < A_L (coefficients refSt tgtSt inten sh)"
proof -
  define rs where "rs = rawScale (ix0 (std refSt)) (ix0 (std tgtSt))"
  have rs: "0 \<le> rs" unfolding rs_def by (rule rawScale_nonneg) (rule assms)
  define k where "k = inten / 114"
  have k: "0 \<le> k" "k \<le> 100 / 114" using assms by (simp_all add: k_def)
  have "k * (1 - rs) \<le> k * 1" using rs k(1) by (intro mult_left_mono) simp_all
  then have kr: "k * (1 - rs) \<le> 100 / 114" using k(2) by simp
  have "1 + ((1 + (rs - 1) * 0.95) - 1) * k = 1 - 0.95 * (k * (1 - rs))" by (simp add: field_simps)
  then have "1 + ((1 + (rs - 1) * 0.95) - 1) * k > 0" using kr by simp
  then show ?thesis
    by (simp add: coefficients_def Let_def scale_std_def BLEND_STD_def intensity_k_def rs_def k_def)
qed

subsection \<open>Statistics\<close>

lemma foldl_sq_nonneg: "(0::real) \<le> acc \<Longrightarrow> 0 \<le> foldl (\<lambda>a c. a + (c - m)\<^sup>2) acc xs"
proof (induction xs arbitrary: acc)
  case Nil
  then show ?case by simp
next
  case (Cons x xs)
  have "0 \<le> acc + (x - m)\<^sup>2" using Cons.prems by simp
  from Cons.IH [OF this] show ?case by simp
qed

lemma varOf_nonneg: "0 \<le> varOf xs m"
  by (simp add: varOf_def foldl_sq_nonneg)

lemma statsLoop_Nil: "statsLoop 0 [] vals = vals"
  by (subst statsLoop.simps) simp

lemma drop4:
  assumes "i < length dat" "(length dat - i) mod 4 = 0"
  shows "drop i dat = dat ! i # dat ! (i + 1) # dat ! (i + 2) # dat ! (i + 3) # drop (i + 4) dat"
proof -
  have "i + 3 < length dat" using assms by presburger
  then show ?thesis
    by (simp add: Cons_nth_drop_Suc add.commute numeral_eq_Suc)
qed

lemma statsLoop_pixels:
  "(length dat - i) mod 4 = 0 \<Longrightarrow>
   statsLoop i dat (ls, as, bs) =
     (ls @ fst (labs rgb2lab (pixelsOf (drop i dat))),
      as @ fst (snd (labs rgb2lab (pixelsOf (drop i dat)))),
      bs @ snd (snd (labs rgb2lab (pixelsOf (drop i dat)))))"
proof (induction i dat "(ls, as, bs)" arbitrary: ls as bs rule: statsLoop.induct)
  case (1 i dat)
  show ?case
  proof (cases "i < length dat")
    case True
    obtain l a bb where lab: "rgb2lab (dat ! i) (dat ! (i + 1)) (dat ! (i + 2)) = (l, a, bb)"
      by (cases "rgb2lab (dat ! i) (dat ! (i + 1)) (dat ! (i + 2))") auto
    have i3: "i + 3 < length dat" using True 1(2) by presburger
    then have m: "(length dat - (i + 4)) mod 4 = 0" using 1(2) by presburger
    have step: "statsLoop i dat (ls, as, bs) = statsLoop (i + 4) dat (ls @ [l], as @ [a], bs @ [bb])"
      using True lab by (subst statsLoop.simps) simp
    show ?thesis
      unfolding step 1(1) [OF True refl refl lab [symmetric] refl m] drop4 [OF True 1(2)]
      using lab by (simp add: labs_def)
  next
    case False
    then show ?thesis by (subst statsLoop.simps) (simp add: labs_def)
  qed
qed

lemma statsLoop_legacy_pixels:
  "(length dat - i) mod 4 = 0 \<Longrightarrow>
   statsLoop_legacy i dat (ls, as, bs) =
     (ls @ fst (labs rgb2lab_legacy (filter (\<lambda>px. \<not> spec_extreme px) (pixelsOf (drop i dat)))),
      as @ fst (snd (labs rgb2lab_legacy (filter (\<lambda>px. \<not> spec_extreme px) (pixelsOf (drop i dat))))),
      bs @ snd (snd (labs rgb2lab_legacy (filter (\<lambda>px. \<not> spec_extreme px) (pixelsOf (drop i dat))))))"
proof (induction i dat "(ls, as, bs)" arbitrary: ls as bs rule: statsLoop_legacy.induct)
  case (1 i dat)
  show ?case
  proof (cases "i < length dat")
    case True
    let ?r = "dat ! i" and ?g = "dat ! (i + 1)" and ?b = "dat ! (i + 2)"
    obtain l a bb where lab: "rgb2lab_legacy ?r ?g ?b = (l, a, bb)"
      by (cases "rgb2lab_legacy ?r ?g ?b") auto
    have i3: "i + 3 < length dat" using True 1(4) by presburger
    then have m: "(length dat - (i + 4)) mod 4 = 0" using 1(4) by presburger
    consider (hi) "?r > 250 \<and> ?g > 250 \<and> ?b > 250"
      | (lo) "\<not> (?r > 250 \<and> ?g > 250 \<and> ?b > 250)" "?r < 5 \<and> ?g < 5 \<and> ?b < 5"
      | (mid) "\<not> (?r > 250 \<and> ?g > 250 \<and> ?b > 250)" "\<not> (?r < 5 \<and> ?g < 5 \<and> ?b < 5)"
      by blast
    then show ?thesis
    proof cases
      case hi
      have step: "statsLoop_legacy i dat (ls, as, bs) = statsLoop_legacy (i + 4) dat (ls, as, bs)"
        using True hi by (subst statsLoop_legacy.simps) (auto simp add: Let_def)
      show ?thesis
        unfolding step 1(1) [OF True refl refl refl hi m] drop4 [OF True 1(4)]
        using hi by (simp add: spec_extreme_def)
    next
      case lo
      have step: "statsLoop_legacy i dat (ls, as, bs) = statsLoop_legacy (i + 4) dat (ls, as, bs)"
        using True lo by (subst statsLoop_legacy.simps) (auto simp add: Let_def)
      show ?thesis
        unfolding step 1(2) [OF True refl refl refl lo(1) lo(2) m] drop4 [OF True 1(4)]
        using lo by (simp add: spec_extreme_def)
    next
      case mid
      have step: "statsLoop_legacy i dat (ls, as, bs) = statsLoop_legacy (i + 4) dat (ls @ [l], as @ [a], bs @ [bb])"
        using True mid lab by (subst statsLoop_legacy.simps) (auto simp add: Let_def)
      show ?thesis
        unfolding step 1(3) [OF True refl refl refl mid(1) mid(2) refl refl lab [symmetric] refl m] drop4 [OF True 1(4)]
        using mid lab by (simp add: spec_extreme_def labs_def)
    qed
  next
    case False
    then show ?thesis by (subst statsLoop_legacy.simps) (simp add: labs_def)
  qed
qed

subsection \<open>Interval bounds through the converter\<close>

lemma root3_between:
  assumes "lo ^ 3 \<le> x" "x \<le> hi ^ 3"
  shows "lo \<le> root 3 x \<and> root 3 x \<le> hi"
proof -
  have "root 3 (lo ^ 3) \<le> root 3 x" "root 3 x \<le> root 3 (hi ^ 3)"
    using assms by simp_all
  then show ?thesis by (simp add: odd_real_root_power_cancel)
qed

lemma cube_between:
  assumes "(0::real) \<le> lo" "lo \<le> x" "x \<le> hi"
  shows "lo ^ 3 \<le> x * x * x \<and> x * x * x \<le> hi ^ 3"
proof -
  have "lo ^ 3 \<le> x ^ 3" "x ^ 3 \<le> hi ^ 3"
    using assms by (auto intro: power_mono)
  then show ?thesis by (simp add: power3_eq_cube)
qed

lemma linearToSRGB_le_10: "x \<le> 0.0031308 \<Longrightarrow> linearToSRGB x \<le> 10"
proof -
  assume a: "x \<le> 0.0031308"
  define w :: real where "w = min 255 (max 0 (x * 12.92 * 255))"
  have "w \<le> 10.4" using a by (auto simp: w_def)
  then have "round w \<le> round (10.4 :: real)" by (rule round_mono)
  moreover have "round (10.4 :: real) = 10" unfolding round_def by (simp add: floor_eq_iff)
  moreover have "linearToSRGB x = round w" using a by (simp add: linearToSRGB_def w_def)
  ultimately show ?thesis by simp
qed

text \<open>If the three cone responses handed to the last stage of oklab2rgb lie in a
  common interval, the linear values are bounded from above.\<close>

lemma oklab2rgb_linear_upper:
  assumes "0 \<le> lo"
    and l: "lo \<le> L + 0.3963377774 * a + 0.2158037573 * b" "L + 0.3963377774 * a + 0.2158037573 * b \<le> hi"
    and m: "lo \<le> L - 0.1055613458 * a - 0.0638541728 * b" "L - 0.1055613458 * a - 0.0638541728 * b \<le> hi"
    and s: "lo \<le> L - 0.0894841775 * a - 1.2914855480 * b" "L - 0.0894841775 * a - 1.2914855480 * b \<le> hi"
    and r: "4.3077115913 * hi ^ 3 - 3.3077115913 * lo ^ 3 \<le> u"
    and g: "2.6097574011 * hi ^ 3 - 1.6097574011 * lo ^ 3 \<le> u"
    and bb: "1.7076147010 * hi ^ 3 - 0.7076147010 * lo ^ 3 \<le> u"
  shows "\<exists>rL gL bL. oklab2rgb L a b = (linearToSRGB rL, linearToSRGB gL, linearToSRGB bL) \<and>
           rL \<le> u \<and> gL \<le> u \<and> bL \<le> u"
proof -
  define l1 where "l1 = L + 0.3963377774 * a + 0.2158037573 * b"
  define m1 where "m1 = L - 0.1055613458 * a - 0.0638541728 * b"
  define s1 where "s1 = L - 0.0894841775 * a - 1.2914855480 * b"
  define l2 where "l2 = l1 * l1 * l1"
  define m2 where "m2 = m1 * m1 * m1"
  define s2 where "s2 = s1 * s1 * s1"
  have cl: "lo ^ 3 \<le> l2" "l2 \<le> hi ^ 3"
    using cube_between [OF assms(1), of l1 hi] l by (simp_all add: l1_def l2_def)
  have cm: "lo ^ 3 \<le> m2" "m2 \<le> hi ^ 3"
    using cube_between [OF assms(1), of m1 hi] m by (simp_all add: m1_def m2_def)
  have cs: "lo ^ 3 \<le> s2" "s2 \<le> hi ^ 3"
    using cube_between [OF assms(1), of s1 hi] s by (simp_all add: s1_def s2_def)
  define rL where "rL = 4.0767416621 * l2 - 3.3077115913 * m2 + 0.2309699292 * s2"
  define gL where "gL = -1.2684380046 * l2 + 2.6097574011 * m2 - 0.3413193965 * s2"
  define bL where "bL = -0.0041960863 * l2 - 0.7034186147 * m2 + 1.7076147010 * s2"
  have "rL \<le> u" using cl cm cs r unfolding rL_def by (simp add: field_simps)
  moreover have "gL \<le> u" using cl cm cs g unfolding gL_def by (simp add: field_simps)
  moreover have "bL \<le> u" using cl cm cs bb unfolding bL_def by (simp add: field_simps)
  moreover have "oklab2rgb L a b = (linearToSRGB rL, linearToSRGB gL, linearToSRGB bL)"
    by (simp add: oklab2rgb_def Let_def rL_def gL_def bL_def l2_def m2_def s2_def l1_def m1_def s1_def)
  ultimately show ?thesis by blast
qed

text \<open>A grey pixel: the three table values agree, and the rows of the first matrix sum
  to 1, to 0.9999999999 and to 1.\<close>

lemma rgb2oklab_grey:
  assumes t: "TABLE_sRGBToLinear r = t" "TABLE_sRGBToLinear g = t" "TABLE_sRGBToLinear b = t"
    and "0 \<le> t" "lo ^ 3 \<le> 0.9999999999 * t" "t \<le> hi ^ 3"
  shows "\<exists>cl cm cs. rgb2oklab r g b =
            (0.2104542553 * cl + 0.7936177850 * cm - 0.0040720468 * cs,
             1.9779984951 * cl - 2.4285922050 * cm + 0.4505937099 * cs,
             0.0259040371 * cl + 0.7827717662 * cm - 0.8086757660 * cs) \<and>
           lo \<le> cl \<and> cl \<le> hi \<and> lo \<le> cm \<and> cm \<le> hi \<and> lo \<le> cs \<and> cs \<le> hi"
proof -
  have l1: "0.4122214708 * t + 0.5363325363 * t + 0.0514459929 * t = t" by simp
  have m1: "0.2119034982 * t + 0.6806995451 * t + 0.1073969566 * t = 0.9999999999 * t" by simp
  have s1: "0.0883024619 * t + 0.2817188376 * t + 0.6299787005 * t = t" by simp
  have le: "0.9999999999 * t \<le> t" using assms(4) by simp
  have "lo ^ 3 \<le> t" "0.9999999999 * t \<le> hi ^ 3" using assms(5,6) le by linarith+
  then have c: "lo \<le> root 3 t" "root 3 t \<le> hi"
    "lo \<le> root 3 (0.9999999999 * t)" "root 3 (0.9999999999 * t) \<le> hi"
    using root3_between [of lo t hi] root3_between [of lo "0.9999999999 * t" hi] assms(5,6)
    by blast+
  have "rgb2oklab r g b =
            (0.2104542553 * root 3 t + 0.7936177850 * root 3 (0.9999999999 * t) - 0.0040720468 * root 3 t,
             1.9779984951 * root 3 t - 2.4285922050 * root 3 (0.9999999999 * t) + 0.4505937099 * root 3 t,
             0.0259040371 * root 3 t + 0.7827717662 * root 3 (0.9999999999 * t) - 0.8086757660 * root 3 t)"
    unfolding rgb2oklab_def Let_def t l1 m1 s1 by (rule refl)
  with c show ?thesis by blast
qed

lemma table_255: "TABLE_sRGBToLinear 255 = 1"
  by (simp add: TABLE_sRGBToLinear_def)

lemma white_lab:
  "\<exists>cl cm cs. rgb2oklab 255 255 255 =
            (0.2104542553 * cl + 0.7936177850 * cm - 0.0040720468 * cs,
             1.9779984951 * cl - 2.4285922050 * cm + 0.4505937099 * cs,
             0.0259040371 * cl + 0.7827717662 * cm - 0.8086757660 * cs) \<and>
           0.9999999999 \<le> cl \<and> cl \<le> 1 \<and> 0.9999999999 \<le> cm \<and> cm \<le> 1 \<and> 0.9999999999 \<le> cs \<and> cs \<le> 1"
proof -
  have "(0.9999999999::real) ^ 3 \<le> 0.9999999999 * 1" "(1::real) \<le> 1 ^ 3"
    by (simp_all add: power3_eq_cube)
  from rgb2oklab_grey [OF table_255 table_255 table_255 _ this] show ?thesis by simp
qed

lemma dark_coefficients:
  "coefficients blackStats brightStats 100 100 =
     \<lparr> A_L = 1, B_L = - (40 / 57), A_a = 1, B_a = 0, A_b = 1, B_b = 0, crushMin = 0 \<rparr>"
  by (simp add: coefficients_def blackStats_def brightStats_def intensity_k_def scale_std_def rawScale_def
      ix0_def ix1_def ix2_def BLEND_MEAN_L_def BLEND_MEAN_C_def crushMinFactor_def Let_def)

lemma dark_transferLab:
  assumes "contrastLift (l - 40 / 57) < 0.65"
  shows "transferLab (coefficients blackStats brightStats 100 100) (l, a, b) =
           (contrastLift (l - 40 / 57) * contrastLift (l - 40 / 57) / 0.65, a, b)"
  using assms by (simp add: dark_coefficients transferLab_def Let_def shadowCrush_def)

lemma maskWeight_white:
  "0 < maskWeight (fst (rgb2lab 255 255 255)) \<and> maskWeight (fst (rgb2lab 255 255 255)) \<le> 7 / 10 ^ 8"
proof -
  obtain cl cm cs where lab: "rgb2oklab 255 255 255 =
            (0.2104542553 * cl + 0.7936177850 * cm - 0.0040720468 * cs,
             1.9779984951 * cl - 2.4285922050 * cm + 0.4505937099 * cs,
             0.0259040371 * cl + 0.7827717662 * cm - 0.8086757660 * cs)"
    and c: "0.9999999999 \<le> cl" "cl \<le> 1" "0.9999999999 \<le> cm" "cm \<le> 1" "0.9999999999 \<le> cs" "cs \<le> 1"
    using white_lab by blast
  define L where "L = 0.2104542553 * cl + 0.7936177850 * cm - 0.0040720468 * cs"
  have L: "0.9999999933 \<le> L" "L \<le> 0.9999999936"
    using c unfolding L_def by (simp_all add: field_simps)
  have "maskWeight L = 1 - (L - 0.9) * 10" using L by (simp add: maskWeight_def)
  then have "0 < maskWeight L" "maskWeight L \<le> 7 / 10 ^ 8" using L by simp_all
  then show ?thesis by (simp add: rgb2lab_def lab L_def)
qed

lemma length_pixelsOf: "length (pixelsOf dat) = length dat div 4"
  by (induction dat rule: pixelsOf.induct) simp_all

subsection \<open>The transfer function and its inverse, up to a perturbation\<close>

text \<open>
  \<^verbatim>\<open>linearToSRGB\<close> returns the index \<open>i\<close> on every linear value within \<open>3 / 10^6\<close> of
  \<^verbatim>\<open>TABLE_sRGBToLinear[i]\<close>. Below the threshold both functions are linear; above it, the
  powers \<open>12/5\<close> and \<open>5/12\<close> are compared through integer powers.
\<close>

lemma clamp_near:
  fixes v k :: real
  assumes "0 \<le> k" "k \<le> 255" "\<bar>v - k\<bar> < 1 / 2"
  shows "\<bar>min 255 (max 0 v) - k\<bar> < 1 / 2"
  using assms by (auto simp: min_def max_def abs_if split: if_splits)

lemma round_clamp:
  fixes v :: real and n :: int
  assumes "0 \<le> n" "n \<le> 255" "\<bar>v - of_int n\<bar> < 1 / 2"
  shows "round (min 255 (max 0 v)) = n"
proof -
  have "\<bar>min 255 (max 0 v) - of_int n\<bar> < 1 / 2"
    using assms by (intro clamp_near) simp_all
  then show ?thesis by (rule round_unique')
qed

lemma powr_12_5_ge:
  fixes c y :: real
  assumes "0 \<le> c" "0 \<le> y" "c ^ 5 \<le> y ^ 12"
  shows "c \<le> y powr (12 / 5)"
proof -
  have "(c ^ 5) powr (1 / 5) \<le> (y ^ 12) powr (1 / 5)"
    using assms by (intro powr_mono2) simp_all
  moreover have "(c ^ 5) powr (1 / 5) = c"
    using assms(1) by (simp add: powr_powr flip: powr_numeral)
  moreover have "(y ^ 12) powr (1 / 5) = y powr (12 / 5)"
    using assms(2) by (simp add: powr_powr flip: powr_numeral)
  ultimately show ?thesis by simp
qed

lemma gamma_linear:
  fixes n :: nat and e :: real
  assumes n: "n \<le> 10" and e: "\<bar>e\<bar> \<le> 3 / 10 ^ 6"
  shows "linearToSRGB (real n / 255 / 12.92 + e) = int n"
proof -
  define x where "x = real n / 255 / 12.92 + e"
  have rn: "real n \<le> 10" using n by simp
  have "real n / 255 / 12.92 \<le> 10 / 255 / 12.92" using rn by (simp add: field_simps)
  then have small: "x \<le> 0.0031308" using e unfolding x_def by (simp add: abs_le_iff)
  have e': "- (3 / 10 ^ 6) \<le> e" "e \<le> 3 / 10 ^ 6" using e by (simp_all add: abs_le_iff)
  define d where "d = x * 12.92 * 255 - real n"
  have "d = e * 3294.6" unfolding d_def x_def by (simp add: field_simps)
  then have "- (1 / 4) < d" "d < 1 / 4" using e' by simp_all
  then have "\<bar>d\<bar> < 1 / 2" by linarith
  then have near: "\<bar>x * 12.92 * 255 - of_int (int n)\<bar> < 1 / 2" unfolding d_def by simp
  have "round (min 255 (max 0 (x * 12.92 * 255))) = int n"
    using n by (intro round_clamp near) simp_all
  then show ?thesis using small by (simp add: linearToSRGB_def x_def)
qed

lemma gamma_power:
  fixes n :: nat and e :: real
  assumes n: "11 \<le> n" "n \<le> 255" and e: "\<bar>e\<bar> \<le> 3 / 10 ^ 6"
  shows "linearToSRGB (((real n / 255 + 0.055) / 1.055) powr 2.4 + e) = int n"
proof -
  define y where "y = (real n / 255 + 0.055) / 1.055"
  define t where "t = y powr (12 / 5)"
  define d :: real where "d = 1 / 538.05"
  define x where "x = t + e"
  have rn: "11 \<le> real n" "real n \<le> 255" using n by simp_all
  have y: "0.093 \<le> y" "y \<le> 1" using rn unfolding y_def by (simp_all add: field_simps)
  have y_pos: "0 < y" "0 \<le> y" using y(1) by simp_all
  have d_pos: "0 < d" by (simp add: d_def)
  have ny: "1.055 * y - 0.055 = real n / 255" unfolding y_def by (simp add: field_simps)
  have e': "- (3 / 10 ^ 6) \<le> e" "e \<le> 3 / 10 ^ 6" using e by (simp_all add: abs_le_iff)
  \<comment> \<open>the table value is well above the threshold of the inverse\<close>
  have "(0.093::real) ^ 12 \<le> y ^ 12" using y(1) by (intro power_mono) simp_all
  moreover have "(0.00314::real) ^ 5 \<le> 0.093 ^ 12" by (simp add: power_divide)
  ultimately have "(0.00314::real) ^ 5 \<le> y ^ 12" by linarith
  then have t_lb: "0.00314 \<le> t" unfolding t_def using y_pos by (intro powr_12_5_ge) simp_all
  have t_pos: "0 \<le> t" using t_lb by simp
  have td: "3 / 10 ^ 6 < t * d"
  proof -
    have "0.00314 * d \<le> t * d" using t_lb d_pos by (intro mult_right_mono) simp_all
    moreover have "3 / 10 ^ 6 < 0.00314 * d" by (simp add: d_def)
    ultimately show ?thesis by linarith
  qed
  have dy: "d \<le> d / y" using y(2) y_pos d_pos by (simp add: field_simps)
  have tdy: "t * d \<le> t * (d / y)" using dy t_pos by (intro mult_left_mono)
  \<comment> \<open>half a count below\<close>
  have dy1: "d / y \<le> 1" using y(1) by (simp add: d_def field_simps)
  have lower: "(y - d) powr (12 / 5) \<le> t - t * d"
  proof -
    define q where "q = 1 - d / y"
    have q: "0 \<le> q" "q \<le> 1" using dy1 d_pos y_pos by (simp_all add: q_def)
    have "y - d = y * q" using y_pos by (simp add: q_def field_simps)
    then have "(y - d) powr (12 / 5) = t * q powr (12 / 5)" by (simp add: powr_mult t_def)
    also have "q powr (12 / 5) \<le> q powr 1" using q by (intro powr_mono') simp_all
    then have "t * q powr (12 / 5) \<le> t * q" using t_pos q by (intro mult_left_mono) simp_all
    also have "t * q = t - t * (d / y)" by (simp add: q_def algebra_simps)
    finally show ?thesis using tdy by linarith
  qed
  \<comment> \<open>half a count above\<close>
  have upper: "t + t * d \<le> (y + d) powr (12 / 5)"
  proof -
    define p where "p = 1 + d / y"
    have p: "1 \<le> p" using d_pos y_pos by (simp add: p_def)
    have "y + d = y * p" using y_pos by (simp add: p_def field_simps)
    then have eq: "(y + d) powr (12 / 5) = t * p powr (12 / 5)" by (simp add: powr_mult t_def)
    have "p powr 1 \<le> p powr (12 / 5)" using p by (intro powr_mono) simp_all
    then have "p \<le> p powr (12 / 5)" using p by simp
    then have "t * p \<le> t * p powr (12 / 5)" using t_pos by (intro mult_left_mono)
    moreover have "t * p = t + t * (d / y)" by (simp add: p_def algebra_simps)
    ultimately show ?thesis using tdy eq by linarith
  qed
  have x_lo: "(y - d) powr (12 / 5) < x" using lower td e' unfolding x_def by linarith
  have x_hi: "x < (y + d) powr (12 / 5)" using upper td e' unfolding x_def by linarith
  have x_big: "0.0031308 < x" using t_lb e' unfolding x_def by simp
  have yd: "0 \<le> y - d" using y(1) by (simp add: d_def)
  have "((y - d) powr (12 / 5)) powr (5 / 12) < x powr (5 / 12)"
    using x_lo by (intro powr_less_mono2) simp_all
  then have p_lo: "y - d < x powr (5 / 12)" using yd by (simp add: powr_powr)
  have "x powr (5 / 12) < ((y + d) powr (12 / 5)) powr (5 / 12)"
    using x_hi x_big by (intro powr_less_mono2) simp_all
  then have p_hi: "x powr (5 / 12) < y + d" using yd d_pos by (simp add: powr_powr)
  define v where "v = (1.055 * x powr (5 / 12) - 0.055) * 255"
  have "v - real n = 269.025 * (x powr (5 / 12) - y)"
    using ny unfolding v_def by (simp add: field_simps)
  moreover have "269.025 * (x powr (5 / 12) - y) < 269.025 * d" using p_hi by simp
  moreover have "- (269.025 * d) < 269.025 * (x powr (5 / 12) - y)" using p_lo by simp
  moreover have "269.025 * d = 1 / 2" by (simp add: d_def)
  ultimately have "\<bar>v - real n\<bar> < 1 / 2" by linarith
  then have "\<bar>v - of_int (int n)\<bar> < 1 / 2" by simp
  then have "round (min 255 (max 0 v)) = int n"
    using n by (intro round_clamp) simp_all
  moreover have "linearToSRGB x = round (min 255 (max 0 v))"
    using x_big by (simp add: linearToSRGB_def v_def)
  ultimately show ?thesis by (simp add: x_def t_def y_def)
qed

lemma unat_byte_le: "unat (i :: byte) \<le> 255"
  using unsigned_less [of i, where ?'a = nat] by simp

lemma TABLE_range: "0 \<le> TABLE_sRGBToLinear i \<and> TABLE_sRGBToLinear i \<le> 1"
proof -
  define n where "n = unat i"
  have n: "real n \<le> 255" using unat_byte_le [of i] unfolding n_def by linarith
  define y where "y = (real n / 255 + 0.055) / 1.055"
  have "0 \<le> y" "y \<le> 1" using n unfolding y_def by (simp_all add: field_simps)
  then have "y powr 2.4 \<le> 1" by (intro powr_le1) simp_all
  moreover have "0 \<le> real n / 255" "real n / 255 \<le> 1" using n by simp_all
  ultimately have "0 \<le> (let x = real n / 255 in if x \<le> 0.04045 then x / 12.92 else ((x + 0.055) / 1.055) powr 2.4)
     \<and> (let x = real n / 255 in if x \<le> 0.04045 then x / 12.92 else ((x + 0.055) / 1.055) powr 2.4) \<le> 1"
    by (simp add: Let_def y_def)
  then show ?thesis unfolding TABLE_sRGBToLinear_def n_def .
qed

lemma gamma_roundtrip:
  assumes "\<bar>e\<bar> \<le> 3 / 10 ^ 6"
  shows "linearToSRGB (TABLE_sRGBToLinear i + e) = uint i"
proof -
  define n where "n = unat i"
  have tab: "TABLE_sRGBToLinear i =
      (if real n / 255 \<le> 0.04045 then real n / 255 / 12.92 else ((real n / 255 + 0.055) / 1.055) powr 2.4)"
    unfolding TABLE_sRGBToLinear_def n_def Let_def by (rule refl)
  have ui: "uint i = int n" unfolding n_def by simp
  have le: "n \<le> 255" unfolding n_def by (rule unat_byte_le)
  show ?thesis
  proof (cases "n \<le> 10")
    case True
    then have "real n \<le> 10" by simp
    then have "real n / 255 \<le> 0.04045" by simp
    then have "TABLE_sRGBToLinear i = real n / 255 / 12.92" unfolding tab by (rule if_P)
    with gamma_linear [OF True assms] show ?thesis unfolding ui by (simp only:)
  next
    case False
    then have n: "11 \<le> n" by simp
    then have "11 \<le> real n" by linarith
    then have "\<not> real n / 255 \<le> 0.04045" by simp
    then have "TABLE_sRGBToLinear i = ((real n / 255 + 0.055) / 1.055) powr 2.4" unfolding tab by (rule if_not_P)
    with gamma_power [OF n le assms] show ?thesis unfolding ui by (simp only:)
  qed
qed

subsection \<open>The two matrix pairs\<close>

text \<open>The second matrix and its stated inverse.\<close>

lemma lab_lms_roundtrip:
  fixes cl cm cs :: real
  assumes "0 \<le> cl" "cl \<le> 1" "0 \<le> cm" "cm \<le> 1" "0 \<le> cs" "cs \<le> 1"
  defines "L \<equiv> 0.2104542553 * cl + 0.7936177850 * cm - 0.0040720468 * cs"
    and "a \<equiv> 1.9779984951 * cl - 2.4285922050 * cm + 0.4505937099 * cs"
    and "b \<equiv> 0.0259040371 * cl + 0.7827717662 * cm - 0.8086757660 * cs"
  shows "\<bar>L + 0.3963377774 * a + 0.2158037573 * b - cl\<bar> \<le> 8 / 10 ^ 8"
    and "\<bar>L - 0.1055613458 * a - 0.0638541728 * b - cm\<bar> \<le> 8 / 10 ^ 8"
    and "\<bar>L - 0.0894841775 * a - 1.2914855480 * b - cs\<bar> \<le> 8 / 10 ^ 8"
  using assms(1-6) unfolding L_def a_def b_def by (simp_all add: abs_le_iff field_simps)

lemma cube_perturb:
  fixes c d :: real
  assumes c: "0 \<le> c" "c \<le> 1" and d: "\<bar>d\<bar> \<le> 8 / 10 ^ 8"
  shows "\<bar>(c + d) * (c + d) * (c + d) - c ^ 3\<bar> \<le> 25 / 10 ^ 8"
proof -
  define f where "f = 3 * c * c + 3 * c * d + d * d"
  have d': "- (8 / 10 ^ 8) \<le> d" "d \<le> 8 / 10 ^ 8" using d by (simp_all add: abs_le_iff)
  have cc: "0 \<le> c * c" "c * c \<le> 1" using c by (simp_all add: mult_le_one)
  have cd: "\<bar>c * d\<bar> \<le> 8 / 10 ^ 8"
  proof -
    have "\<bar>c * d\<bar> = c * \<bar>d\<bar>" using c(1) by (simp add: abs_mult)
    also have "\<dots> \<le> 1 * \<bar>d\<bar>" using c(2) by (intro mult_right_mono) simp_all
    finally show ?thesis using d by simp
  qed
  have dd: "0 \<le> d * d" "d * d \<le> 1 / 10 ^ 8"
  proof -
    show "0 \<le> d * d" by simp
    have "d * d = \<bar>d\<bar> * \<bar>d\<bar>" by simp
    also have "\<dots> \<le> (8 / 10 ^ 8) * (8 / 10 ^ 8)" using d by (intro mult_mono) simp_all
    also have "\<dots> \<le> 1 / 10 ^ 8" by simp
    finally show "d * d \<le> 1 / 10 ^ 8" .
  qed
  define p q r where "p = c * c" and "q = c * d" and "r = d * d"
  have "f = 3 * p + 3 * q + r" unfolding f_def p_def q_def r_def by (simp add: algebra_simps)
  moreover have "0 \<le> p" "p \<le> 1" "\<bar>q\<bar> \<le> 1 / 100" "0 \<le> r" "r \<le> 1 / 100"
    using cc cd dd unfolding p_def q_def r_def by simp_all
  ultimately have "\<bar>f\<bar> \<le> 31 / 10" by linarith
  then have f: "\<bar>f\<bar> \<le> 3.1" by simp
  have "(c + d) * (c + d) * (c + d) - c ^ 3 = d * f"
    unfolding f_def by (simp add: power3_eq_cube algebra_simps)
  moreover have "\<bar>d * f\<bar> \<le> (8 / 10 ^ 8) * 3.1"
    unfolding abs_mult using d f by (intro mult_mono) simp_all
  ultimately show ?thesis by simp
qed

text \<open>The inverse of the first matrix applied to perturbed cone responses.\<close>

lemma lms_rgb_roundtrip:
  fixes R G B el em es :: real
  assumes "0 \<le> R" "R \<le> 1" "0 \<le> G" "G \<le> 1" "0 \<le> B" "B \<le> 1"
    and "\<bar>el\<bar> \<le> 25 / 10 ^ 8" "\<bar>em\<bar> \<le> 25 / 10 ^ 8" "\<bar>es\<bar> \<le> 25 / 10 ^ 8"
  defines "l \<equiv> 0.4122214708 * R + 0.5363325363 * G + 0.0514459929 * B + el"
    and "m \<equiv> 0.2119034982 * R + 0.6806995451 * G + 0.1073969566 * B + em"
    and "s \<equiv> 0.0883024619 * R + 0.2817188376 * G + 0.6299787005 * B + es"
  shows "\<bar>4.0767416621 * l - 3.3077115913 * m + 0.2309699292 * s - R\<bar> \<le> 3 / 10 ^ 6"
    and "\<bar>-1.2684380046 * l + 2.6097574011 * m - 0.3413193965 * s - G\<bar> \<le> 3 / 10 ^ 6"
    and "\<bar>-0.0041960863 * l - 0.7034186147 * m + 1.7076147010 * s - B\<bar> \<le> 3 / 10 ^ 6"
proof -
  have e: "- (25 / 10 ^ 8) \<le> el" "el \<le> 25 / 10 ^ 8" "- (25 / 10 ^ 8) \<le> em" "em \<le> 25 / 10 ^ 8"
    "- (25 / 10 ^ 8) \<le> es" "es \<le> 25 / 10 ^ 8"
    using assms(7-9) by (simp_all add: abs_le_iff)
  show "\<bar>4.0767416621 * l - 3.3077115913 * m + 0.2309699292 * s - R\<bar> \<le> 3 / 10 ^ 6"
    using assms(1-6) e unfolding l_def m_def s_def by (simp add: abs_le_iff field_simps)
  show "\<bar>-1.2684380046 * l + 2.6097574011 * m - 0.3413193965 * s - G\<bar> \<le> 3 / 10 ^ 6"
    using assms(1-6) e unfolding l_def m_def s_def by (simp add: abs_le_iff field_simps)
  show "\<bar>-0.0041960863 * l - 0.7034186147 * m + 1.7076147010 * s - B\<bar> \<le> 3 / 10 ^ 6"
    using assms(1-6) e unfolding l_def m_def s_def by (simp add: abs_le_iff field_simps)
qed

lemma cone_response:
  fixes x :: real
  assumes "0 \<le> x" "x \<le> 1"
  shows "0 \<le> root 3 x" "root 3 x \<le> 1" "root 3 x ^ 3 = x"
proof -
  have "(0::real) ^ 3 \<le> x" "x \<le> 1 ^ 3" using assms by simp_all
  from root3_between [OF this] show "0 \<le> root 3 x" "root 3 x \<le> 1" by simp_all
  show "root 3 x ^ 3 = x" by (simp add: odd_real_root_pow)
qed

subsection \<open>The size of a resized canvas\<close>

text \<open>
  Within a binade \<open>[2^e, 2^(e+1))\<close> the doubles are the multiples of \<open>2^(e-52)\<close>, so
  \<open>toDouble\<close> moves a number by at most \<open>2^(e-53)\<close>. An image of 6001 by 1 pixels passes
  the loader's test for a zero dimension and is resized to a canvas of 3000 by 0; an image
  of 3648 by 2204 pixels is resized to 3000 by 1812, the exact product being \<open>1812.5\<close>.
\<close>

lemma roundTiesToEven_near: "\<bar>of_int (roundTiesToEven q) - q\<bar> \<le> 1 / 2"
  unfolding roundTiesToEven_def Let_def
  by (auto simp: abs_if) linarith+

lemma toDouble_binade:
  assumes "2 powi e \<le> x" "x < 2 powi (e + 1)"
  shows "toDouble x = of_int (roundTiesToEven (x / 2 powi (e - 52))) * 2 powi (e - 52)"
proof -
  have pos: "0 < x" using assms(1) by (rule less_le_trans [rotated]) simp
  have "\<lfloor>log 2 x\<rfloor> = e"
    using assms pos powr_real_of_int' [of 2 e] powr_real_of_int' [of 2 "e + 1"]
    by (simp add: floor_log_eq_powr_iff)
  then show ?thesis using pos by (simp add: toDouble_def Let_def)
qed

lemma toDouble_near:
  assumes "2 powi e \<le> x" "x < 2 powi (e + 1)"
  shows "\<bar>toDouble x - x\<bar> \<le> 2 powi (e - 53)"
proof -
  define u :: real where "u = 2 powi (e - 52)"
  have u: "0 < u" by (simp add: u_def)
  have "\<bar>of_int (roundTiesToEven (x / u)) - x / u\<bar> * u \<le> 1 / 2 * u"
    by (rule mult_right_mono [OF roundTiesToEven_near]) (use u in simp)
  moreover have "\<bar>of_int (roundTiesToEven (x / u)) - x / u\<bar> * u = \<bar>of_int (roundTiesToEven (x / u)) * u - x\<bar>"
    using u by (simp add: abs_mult_pos left_diff_distrib)
  moreover have "1 / 2 * u = 2 powi (e - 53)"
    by (simp add: u_def power_int_diff)
  ultimately show ?thesis
    unfolding toDouble_binade [OF assms] u_def [symmetric] by simp
qed

lemma thin_image_height:
  "round (toDouble (real 1 * toDouble (real 3000 / real 6001))) = 0"
proof -
  define d where "d = toDouble (3000 / 6001)"
  have "\<bar>d - 3000 / 6001\<bar> \<le> 2 powi (- 2 - 53)"
    unfolding d_def by (rule toDouble_near) (simp_all add: power_int_minus)
  moreover have "(2::real) powi (- 2 - 53) \<le> 1 / 1000000" by (simp add: power_int_minus)
  ultimately have "\<bar>d - 3000 / 6001\<bar> \<le> 1 / 1000000" by (rule order_trans)
  then have d: "1 / 4 \<le> d" "d < 49992 / 100000" by linarith+
  have "\<bar>toDouble d - d\<bar> \<le> 2 powi (- 2 - 53)"
    by (rule toDouble_near) (use d in \<open>simp_all add: power_int_minus\<close>)
  moreover have "(2::real) powi (- 2 - 53) \<le> 1 / 1000000" by (simp add: power_int_minus)
  ultimately have "\<bar>toDouble d - d\<bar> \<le> 1 / 1000000" by (rule order_trans)
  then have "0 \<le> toDouble d" "toDouble d < 1 / 2" using d by linarith+
  then have "round (toDouble d) = 0" unfolding round_def by (simp add: floor_eq_iff)
  then show ?thesis by (simp add: d_def)
qed

lemma resize_thin:
  "resizeImageCanvas draw h \<lparr> file_name = n, url = u, element = a, img_width = 6001, img_height = 1 \<rparr> RESIZE_LONG_EDGE =
     (h @ [draw (h ! a) (6001, 1) (3000, 0)], \<lparr> ctx = length h, canvas_width = 3000, canvas_height = 0 \<rparr>)"
  using thin_image_height by (simp add: resizeImageCanvas_def RESIZE_LONG_EDGE_def)

lemma toDouble_3000_3648: "toDouble (3000 / 3648) = 7407236229227789 / 2 ^ 53"
  apply (subst toDouble_binade [where e = "-1"])
    apply (simp_all add: power_int_minus roundTiesToEven_def Let_def)
  done

lemma toDouble_2204: "toDouble (real 2204 * (7407236229227789 / 2 ^ 53)) = 7971459301375999 / 2 ^ 42"
  apply (subst toDouble_binade [where e = "10"])
    apply (simp_all add: power_int_minus roundTiesToEven_def Let_def)
  done

lemma round_3648_2204: "round (toDouble (real 2204 * toDouble (real 3000 / real 3648))) = 1812"
proof -
  have e: "toDouble (real 2204 * toDouble (real 3000 / real 3648)) = 7971459301375999 / 2 ^ 42"
    using toDouble_2204 by (simp only: toDouble_3000_3648 of_nat_numeral)
  show ?thesis unfolding e by (simp add: round_def)
qed

lemma resize_3648_2204:
  "snd (resizeImageCanvas draw h \<lparr> file_name = n, url = u, element = a, img_width = 3648, img_height = 2204 \<rparr> RESIZE_LONG_EDGE) =
     \<lparr> ctx = length h, canvas_width = 3000, canvas_height = 1812 \<rparr>"
  using round_3648_2204 by (simp add: resizeImageCanvas_def RESIZE_LONG_EDGE_def)

subsection \<open>A dark grey pixel at intensity 0\<close>

text \<open>
  The pixel \<open>(10, 10, 10)\<close> at intensity 0, whatever the statistics: with shadow strength
  0 it becomes \<open>(4, 4, 4)\<close>, with shadow strength 50 it becomes \<open>(0, 0, 0)\<close>.
\<close>

lemma table_10: "TABLE_sRGBToLinear 10 = 50 / 16473"
  by (simp add: TABLE_sRGBToLinear_def)

lemma grey10_lab:
  "\<exists>cl cm cs. rgb2oklab 10 10 10 =
            (0.2104542553 * cl + 0.7936177850 * cm - 0.0040720468 * cs,
             1.9779984951 * cl - 2.4285922050 * cm + 0.4505937099 * cs,
             0.0259040371 * cl + 0.7827717662 * cm - 0.8086757660 * cs) \<and>
           0.14478 \<le> cl \<and> cl \<le> 0.14479 \<and> 0.14478 \<le> cm \<and> cm \<le> 0.14479 \<and> 0.14478 \<le> cs \<and> cs \<le> 0.14479"
proof -
  have "(0.14478::real) ^ 3 \<le> 0.9999999999 * (50 / 16473)" "(50 / 16473 :: real) \<le> 0.14479 ^ 3"
    by (simp_all add: power3_eq_cube)
  from rgb2oklab_grey [OF table_10 table_10 table_10 _ this] show ?thesis by simp
qed

lemma zero_lab:
  "transferLab (coefficients refSt tgtSt 0 sh) (l, a, b) =
     (shadowCrush (crushMinFactor sh) (contrastLift l), a, b)"
  by (simp add: coefficients_def intensity_k_def Let_def transferLab_def)

lemma shadowCrush_between:
  assumes "0 \<le> lo" "lo \<le> l" "l \<le> hi" "hi < 0.65" "0 \<le> c" "c \<le> 1"
  shows "lo * (c + lo / 0.65 * (1 - c)) \<le> shadowCrush c l \<and>
         shadowCrush c l \<le> hi * (c + hi / 0.65 * (1 - c))"
proof -
  have eq: "shadowCrush c l = l * (c + l / 0.65 * (1 - c))"
    using assms by (simp add: shadowCrush_def Let_def)
  have f1: "c + lo / 0.65 * (1 - c) \<le> c + l / 0.65 * (1 - c)"
    using assms by (simp add: mult_right_mono divide_right_mono)
  have f2: "c + l / 0.65 * (1 - c) \<le> c + hi / 0.65 * (1 - c)"
    using assms by (simp add: mult_right_mono divide_right_mono)
  have p1: "0 \<le> c + lo / 0.65 * (1 - c)" using assms by simp
  have p2: "0 \<le> c + l / 0.65 * (1 - c)" using assms by simp
  have l0: "0 \<le> l" using assms by simp
  have "lo * (c + lo / 0.65 * (1 - c)) \<le> l * (c + l / 0.65 * (1 - c))"
    by (rule mult_mono [OF assms(2) f1 l0 p1])
  moreover have "l * (c + l / 0.65 * (1 - c)) \<le> hi * (c + hi / 0.65 * (1 - c))"
    by (rule mult_mono [OF assms(3) f2 _ p2]) (use assms in simp)
  ultimately show ?thesis unfolding eq by simp
qed

lemma oklab2rgb_linear_between:
  assumes "0 \<le> lo"
    and l: "lo \<le> L + 0.3963377774 * a + 0.2158037573 * b" "L + 0.3963377774 * a + 0.2158037573 * b \<le> hi"
    and m: "lo \<le> L - 0.1055613458 * a - 0.0638541728 * b" "L - 0.1055613458 * a - 0.0638541728 * b \<le> hi"
    and s: "lo \<le> L - 0.0894841775 * a - 1.2914855480 * b" "L - 0.0894841775 * a - 1.2914855480 * b \<le> hi"
    and r: "4.3077115913 * hi ^ 3 - 3.3077115913 * lo ^ 3 \<le> u" "v \<le> 4.3077115913 * lo ^ 3 - 3.3077115913 * hi ^ 3"
    and g: "2.6097574011 * hi ^ 3 - 1.6097574011 * lo ^ 3 \<le> u" "v \<le> 2.6097574011 * lo ^ 3 - 1.6097574011 * hi ^ 3"
    and bb: "1.7076147010 * hi ^ 3 - 0.7076147010 * lo ^ 3 \<le> u" "v \<le> 1.7076147010 * lo ^ 3 - 0.7076147010 * hi ^ 3"
  shows "\<exists>rL gL bL. oklab2rgb L a b = (linearToSRGB rL, linearToSRGB gL, linearToSRGB bL) \<and>
           v \<le> rL \<and> rL \<le> u \<and> v \<le> gL \<and> gL \<le> u \<and> v \<le> bL \<and> bL \<le> u"
proof -
  define l1 where "l1 = L + 0.3963377774 * a + 0.2158037573 * b"
  define m1 where "m1 = L - 0.1055613458 * a - 0.0638541728 * b"
  define s1 where "s1 = L - 0.0894841775 * a - 1.2914855480 * b"
  define l2 where "l2 = l1 * l1 * l1"
  define m2 where "m2 = m1 * m1 * m1"
  define s2 where "s2 = s1 * s1 * s1"
  have cl: "lo ^ 3 \<le> l2" "l2 \<le> hi ^ 3"
    using cube_between [OF assms(1), of l1 hi] l by (simp_all add: l1_def l2_def)
  have cm: "lo ^ 3 \<le> m2" "m2 \<le> hi ^ 3"
    using cube_between [OF assms(1), of m1 hi] m by (simp_all add: m1_def m2_def)
  have cs: "lo ^ 3 \<le> s2" "s2 \<le> hi ^ 3"
    using cube_between [OF assms(1), of s1 hi] s by (simp_all add: s1_def s2_def)
  define rL where "rL = 4.0767416621 * l2 - 3.3077115913 * m2 + 0.2309699292 * s2"
  define gL where "gL = -1.2684380046 * l2 + 2.6097574011 * m2 - 0.3413193965 * s2"
  define bL where "bL = -0.0041960863 * l2 - 0.7034186147 * m2 + 1.7076147010 * s2"
  have "rL \<le> u" "v \<le> rL" using cl cm cs r unfolding rL_def by (simp_all add: field_simps)
  moreover have "gL \<le> u" "v \<le> gL" using cl cm cs g unfolding gL_def by (simp_all add: field_simps)
  moreover have "bL \<le> u" "v \<le> bL" using cl cm cs bb unfolding bL_def by (simp_all add: field_simps)
  moreover have "oklab2rgb L a b = (linearToSRGB rL, linearToSRGB gL, linearToSRGB bL)"
    by (simp add: oklab2rgb_def Let_def rL_def gL_def bL_def l2_def m2_def s2_def l1_def m1_def s1_def)
  ultimately show ?thesis by blast
qed

lemma lin_4: "107 / 100000 \<le> x \<Longrightarrow> x \<le> 136 / 100000 \<Longrightarrow> linearToSRGB x = 4"
proof -
  assume a: "107 / 100000 \<le> x" "x \<le> 136 / 100000"
  define y where "y = x * 12.92 * 255"
  have "7 / 2 < y" "y < 9 / 2" using a by (simp_all add: y_def)
  then have "\<bar>y - 4\<bar> < 1 / 2" by linarith
  then have "round (min 255 (max 0 y)) = 4"
    using round_clamp [of 4 y] by simp
  moreover have "linearToSRGB x = round (min 255 (max 0 y))"
    using a by (simp add: linearToSRGB_def y_def)
  ultimately show ?thesis by simp
qed

lemma px10_shadow0: "transferPixel (coefficients refSt tgtSt 0 0) (10, 10, 10) = (4, 4, 4)"
proof -
  obtain cl cm cs where lab: "rgb2oklab 10 10 10 =
            (0.2104542553 * cl + 0.7936177850 * cm - 0.0040720468 * cs,
             1.9779984951 * cl - 2.4285922050 * cm + 0.4505937099 * cs,
             0.0259040371 * cl + 0.7827717662 * cm - 0.8086757660 * cs)"
    and c: "0.14478 \<le> cl" "cl \<le> 0.14479" "0.14478 \<le> cm" "cm \<le> 0.14479" "0.14478 \<le> cs" "cs \<le> 0.14479"
    using grey10_lab by blast
  define L where "L = 0.2104542553 * cl + 0.7936177850 * cm - 0.0040720468 * cs"
  define a where "a = 1.9779984951 * cl - 2.4285922050 * cm + 0.4505937099 * cs"
  define b where "b = 0.0259040371 * cl + 0.7827717662 * cm - 0.8086757660 * cs"
  define l_new where "l_new = contrastLift L"
  have tl: "transferLab (coefficients refSt tgtSt 0 0) (rgb2lab 10 10 10) = (l_new, a, b)"
    by (simp add: rgb2lab_def lab zero_lab L_def a_def b_def l_new_def crushMinFactor_def shadowCrush_no_crush)
  have l: "0.1092 \<le> l_new + 0.3963377774 * a + 0.2158037573 * b" "l_new + 0.3963377774 * a + 0.2158037573 * b \<le> 0.1093"
    using c unfolding l_new_def contrastLift_def L_def a_def b_def by (simp_all add: field_simps)
  have m: "0.1092 \<le> l_new - 0.1055613458 * a - 0.0638541728 * b" "l_new - 0.1055613458 * a - 0.0638541728 * b \<le> 0.1093"
    using c unfolding l_new_def contrastLift_def L_def a_def b_def by (simp_all add: field_simps)
  have s: "0.1092 \<le> l_new - 0.0894841775 * a - 1.2914855480 * b" "l_new - 0.0894841775 * a - 1.2914855480 * b \<le> 0.1093"
    using c unfolding l_new_def contrastLift_def L_def a_def b_def by (simp_all add: field_simps)
  obtain rL gL bL where o: "oklab2rgb l_new a b = (linearToSRGB rL, linearToSRGB gL, linearToSRGB bL)"
    and u: "107 / 100000 \<le> rL" "rL \<le> 136 / 100000" "107 / 100000 \<le> gL" "gL \<le> 136 / 100000"
      "107 / 100000 \<le> bL" "bL \<le> 136 / 100000"
  proof -
    have "4.3077115913 * (0.1093::real) ^ 3 - 3.3077115913 * 0.1092 ^ 3 \<le> 136 / 100000"
      "107 / 100000 \<le> 4.3077115913 * (0.1092::real) ^ 3 - 3.3077115913 * 0.1093 ^ 3"
      "2.6097574011 * (0.1093::real) ^ 3 - 1.6097574011 * 0.1092 ^ 3 \<le> 136 / 100000"
      "107 / 100000 \<le> 2.6097574011 * (0.1092::real) ^ 3 - 1.6097574011 * 0.1093 ^ 3"
      "1.7076147010 * (0.1093::real) ^ 3 - 0.7076147010 * 0.1092 ^ 3 \<le> 136 / 100000"
      "107 / 100000 \<le> 1.7076147010 * (0.1092::real) ^ 3 - 0.7076147010 * 0.1093 ^ 3"
      by (simp_all add: power3_eq_cube)
    from oklab2rgb_linear_between [OF _ l m s this] that show ?thesis by auto
  qed
  have "linearToSRGB rL = 4" "linearToSRGB gL = 4" "linearToSRGB bL = 4"
    using u by (auto intro!: lin_4)
  then show ?thesis
    by (simp add: transferPixel_def tl lab2rgb_def o)
qed

lemma px10_shadow50: "transferPixel (coefficients refSt tgtSt 0 50) (10, 10, 10) = (0, 0, 0)"
proof -
  obtain cl cm cs where lab: "rgb2oklab 10 10 10 =
            (0.2104542553 * cl + 0.7936177850 * cm - 0.0040720468 * cs,
             1.9779984951 * cl - 2.4285922050 * cm + 0.4505937099 * cs,
             0.0259040371 * cl + 0.7827717662 * cm - 0.8086757660 * cs)"
    and c: "0.14478 \<le> cl" "cl \<le> 0.14479" "0.14478 \<le> cm" "cm \<le> 0.14479" "0.14478 \<le> cs" "cs \<le> 0.14479"
    using grey10_lab by blast
  define L where "L = 0.2104542553 * cl + 0.7936177850 * cm - 0.0040720468 * cs"
  define a where "a = 1.9779984951 * cl - 2.4285922050 * cm + 0.4505937099 * cs"
  define b where "b = 0.0259040371 * cl + 0.7827717662 * cm - 0.8086757660 * cs"
  define l_lift where "l_lift = contrastLift L"
  define l_new where "l_new = shadowCrush (crushMinFactor 50) l_lift"
  have tl: "transferLab (coefficients refSt tgtSt 0 50) (rgb2lab 10 10 10) = (l_new, a, b)"
    by (simp add: rgb2lab_def lab zero_lab L_def a_def b_def l_new_def l_lift_def)
  have lift: "0.10925 \<le> l_lift" "l_lift \<le> 0.10927"
    using c unfolding l_lift_def contrastLift_def L_def by (simp_all add: field_simps)
  have cmf: "crushMinFactor 50 = 3 / 10" by (simp add: crushMinFactor_def)
  have ln: "0.04562 \<le> l_new" "l_new \<le> 0.04564"
  proof -
    have "(0.10925::real) * (3 / 10 + 0.10925 / 0.65 * (1 - 3 / 10)) \<le> l_new \<and>
          l_new \<le> 0.10927 * (3 / 10 + 0.10927 / 0.65 * (1 - 3 / 10))"
      unfolding l_new_def cmf by (rule shadowCrush_between [OF _ lift]) simp_all
    then show "0.04562 \<le> l_new" "l_new \<le> 0.04564" by simp_all
  qed
  have ab: "- (25 / 10 ^ 6) \<le> a" "a \<le> 25 / 10 ^ 6" "- (9 / 10 ^ 6) \<le> b" "b \<le> 9 / 10 ^ 6"
    using c unfolding a_def b_def by (simp_all add: field_simps)
  have l: "0.0456 \<le> l_new + 0.3963377774 * a + 0.2158037573 * b" "l_new + 0.3963377774 * a + 0.2158037573 * b \<le> 0.0457"
    using ln ab by (simp_all add: field_simps)
  have m: "0.0456 \<le> l_new - 0.1055613458 * a - 0.0638541728 * b" "l_new - 0.1055613458 * a - 0.0638541728 * b \<le> 0.0457"
    using ln ab by (simp_all add: field_simps)
  have s: "0.0456 \<le> l_new - 0.0894841775 * a - 1.2914855480 * b" "l_new - 0.0894841775 * a - 1.2914855480 * b \<le> 0.0457"
    using ln ab by (simp_all add: field_simps)
  obtain rL gL bL where o: "oklab2rgb l_new a b = (linearToSRGB rL, linearToSRGB gL, linearToSRGB bL)"
    and u: "rL \<le> 14 / 100000" "gL \<le> 14 / 100000" "bL \<le> 14 / 100000"
  proof -
    have "4.3077115913 * (0.0457::real) ^ 3 - 3.3077115913 * 0.0456 ^ 3 \<le> 14 / 100000"
      "2.6097574011 * (0.0457::real) ^ 3 - 1.6097574011 * 0.0456 ^ 3 \<le> 14 / 100000"
      "1.7076147010 * (0.0457::real) ^ 3 - 0.7076147010 * 0.0456 ^ 3 \<le> 14 / 100000"
      by (simp_all add: power3_eq_cube)
    from oklab2rgb_linear_upper [OF _ l m s this] that show ?thesis by auto
  qed
  have "linearToSRGB rL = 0" "linearToSRGB gL = 0" "linearToSRGB bL = 0"
    using u by (auto intro!: lin_small)
  then show ?thesis
    by (simp add: transferPixel_def tl lab2rgb_def o)
qed

lemma pixelLoop_one_pixel:
  "pixelLoop c 0 [r, g, b, al] =
     [toUint8Clamp (fst (transferPixel c (r, g, b))), toUint8Clamp (fst (snd (transferPixel c (r, g, b)))),
      toUint8Clamp (snd (snd (transferPixel c (r, g, b)))), al]"
  apply (subst pixelLoop.simps)
  apply simp
  apply (subst pixelLoop.simps)
  apply simp
  done

lemma export_px10: "pixelLoop (coefficients refSt tgtSt 0 50) 0 [10, 10, 10, 255] = [0, 0, 0, 255]"
  by (simp add: pixelLoop_one_pixel px10_shadow50 toUint8Clamp_def)

lemma preview_px10: "pixelLoop (coefficients refSt tgtSt 0 0) 0 [10, 10, 10, 255] = [4, 4, 4, 255]"
  by (simp add: pixelLoop_one_pixel px10_shadow0 toUint8Clamp_def)

subsection \<open>Canvas reads, the export and the sliders\<close>

text \<open>
  On a canvas of positive area both canvas reads of an export succeed, and the exported
  array is the pixel loop run on the resized target. The result entry enters the export
  through its intensity only.
\<close>

lemma getImageData_pos:
  "0 < w \<Longrightarrow> 0 < hg \<Longrightarrow> getImageData h c w hg = Inr (h @ [h ! c], \<lparr> data = length h, width = w, height = hg \<rparr>)"
  by (simp add: getImageData_def)

lemma computeStats_pos:
  "0 < w \<Longrightarrow> 0 < hg \<Longrightarrow> computeStats h c w hg = Inr (h @ [h ! c], statsOfData (h ! c))"
  by (simp add: computeStats_def getImageData_def)

lemma resizeImageCanvas_shape:
  "\<exists>w hg. resizeImageCanvas draw h img longEdge =
     (h @ [draw (h ! element img) (img_width img, img_height img) (w, hg)],
      \<lparr> ctx = length h, canvas_width = w, canvas_height = hg \<rparr>)"
  by (simp add: resizeImageCanvas_def Let_def split: prod.splits)

lemma exportImage_pos:
  assumes r: "resizeImageCanvas draw h tgt RESIZE_LONG_EDGE = (h1, cv)"
    and pos: "0 < canvas_width cv" "0 < canvas_height cv"
  shows "exportImage draw h refSt tgt res =
           Inr (h1 @ [h1 ! ctx cv, h1 ! ctx cv,
                      pixelLoop (coefficients refSt (statsOfData (h1 ! ctx cv)) (intensity res) 50) 0 (h1 ! ctx cv)],
                \<lparr> data = length h1 + 2, width = canvas_width cv, height = canvas_height cv \<rparr>)"
proof -
  from resizeImageCanvas_shape [of draw h tgt RESIZE_LONG_EDGE] r
  have lt: "ctx cv < length h1" by auto
  show ?thesis
    using lt pos
    by (simp add: exportImage_def r computeStats_pos getImageData_pos processImageBuffer_unfold nth_append)
qed

lemma exportImage_shadow: "exportImage draw h refSt tgt (res\<lparr> shadow := s \<rparr>) = exportImage draw h refSt tgt res"
  by (simp add: exportImage_def cong: prod.case_cong sum.case_cong)

lemma zipLoop_shadow:
  "zipLoop draw refSt (map (\<lambda>r. r\<lparr> shadow := f r \<rparr>) ress) i tgts h = zipLoop draw refSt ress i tgts h"
  by (induction tgts arbitrary: i h) (simp_all add: exportImage_shadow cong: prod.case_cong sum.case_cong)

lemma handleDownloadZip_shadow:
  "snd (handleDownloadZip draw (s\<lparr> results := map (\<lambda>r. r\<lparr> shadow := f r \<rparr>) (results s) \<rparr>)) =
   snd (handleDownloadZip draw s)"
  by (simp add: handleDownloadZip_def zipLoop_shadow Let_def split: option.splits prod.splits sum.splits)

lemma statsLoop_count:
  assumes "length dat mod 4 = 0"
  shows "length (fst (statsLoop 0 dat ([], [], []))) = length dat div 4"
  using assms statsLoop_pixels [of dat 0 "[]" "[]" "[]"] by (simp add: labs_def length_pixelsOf)

lemma statsOfData_std_nonneg:
  "0 \<le> ix0 (std (statsOfData dat)) \<and> 0 \<le> ix1 (std (statsOfData dat)) \<and> 0 \<le> ix2 (std (statsOfData dat))"
  by (simp add: statsOfData_def Let_def ix0_def ix1_def ix2_def varOf_nonneg split: prod.splits)

lemma zip_thin_reference:
  assumes "reference s = Some \<lparr> file_name = n, url = u, element = a, img_width = 6001, img_height = 1 \<rparr>"
    and "targets s \<noteq> []" "results s \<noteq> []"
  shows "errorMessage (fst (handleDownloadZip draw s)) = Some msgZipFail \<and> snd (handleDownloadZip draw s) = []"
  using assms unfolding handleDownloadZip_def
  by (simp add: resize_thin computeStats_def getImageData_def del: One_nat_def)

text \<open>
  The state \<open>cached\<close>: the intensity slider of image 0 is moved to 0 and its timer
  fires; then the shadow handler is called with 0 and its timer fires; then the images
  are exported.
\<close>

lemma slider_to_zero:
  "results (timerFires (handleIntensityChange cached 0 0) 0) =
     [res0\<lparr> intensity := 0, resultUrl := [0, 0, 0, 255] \<rparr>]"
  by (simp add: cached_def handleIntensityChange_def timerFires_def reprocess_def getImageData_def
      processImageBuffer_unfold res0_def img0_def export_px10)

lemma resize_img0:
  "resizeImageCanvas copyDraw [[10, 10, 10, 255]] img0 RESIZE_LONG_EDGE =
     ([[10, 10, 10, 255], [10, 10, 10, 255]], \<lparr> ctx = 1, canvas_width = 1, canvas_height = 1 \<rparr>)"
  by (simp add: resizeImageCanvas_def img0_def RESIZE_LONG_EDGE_def copyDraw_def)

lemma resize_img0_any:
  "resizeImageCanvas copyDraw h img0 RESIZE_LONG_EDGE =
     (h @ [h ! 0], \<lparr> ctx = length h, canvas_width = 1, canvas_height = 1 \<rparr>)"
  by (simp add: resizeImageCanvas_def img0_def RESIZE_LONG_EDGE_def copyDraw_def)

lemma sliders_state:
  "timerFires (handleShadowChange (timerFires (handleIntensityChange cached 0 0) 0) 0 0) 0 =
     cached\<lparr> results := [res0\<lparr> intensity := 0, shadow := 0, resultUrl := [4, 4, 4, 255] \<rparr>],
             store := [[10, 10, 10, 255], [10, 10, 10, 255], [10, 10, 10, 255], [0, 0, 0, 255],
                       [10, 10, 10, 255], [4, 4, 4, 255]] \<rparr>"
  by (simp add: cached_def handleIntensityChange_def handleShadowChange_def timerFires_def reprocess_def getImageData_def
      processImageBuffer_unfold res0_def img0_def export_px10 preview_px10)

lemma zip_after_sliders:
  "snd (handleDownloadZip copyDraw
     (timerFires (handleShadowChange (timerFires (handleIntensityChange cached 0 0) 0) 0 0) 0)) = [[0, 0, 0, 255]]"
  unfolding sliders_state
  by (simp add: handleDownloadZip_def cached_def resize_img0_any computeStats_pos exportImage_pos export_px10 nth_append)

section \<open>The claims\<close>

subsection \<open>C1: intensity zero\<close>

text \<open>
  C1: with intensity 0 the calibration is the identity on all three channels (scale 1,
  offset 0), whatever the statistics, and both chroma channels of every pixel are kept.
  The pixel is not: its lightness still passes through the contrast lift and the shadow
  curve, which are applied at every intensity; the shadow curve is the identity for
  shadow strength 0 and for no other. The one-pixel image \<open>(10, 10, 10, 255)\<close>
  processed at intensity 0 comes out as \<open>(0, 0, 0, 255)\<close> with the default shadow
  strength, and as \<open>(4, 4, 4, 255)\<close> with shadow strength 0. In the state \<open>cached\<close>,
  whose preview canvas holds that pixel, moving the intensity slider to 0 (the end that
  the interface labels \<^verbatim>\<open>labelOriginal\<close>, \<^verbatim>\<open>"Original"\<close>) and letting the timer fire
  leaves a preview of \<open>(0, 0, 0, 255)\<close>, not the pixel of the canvas.
\<close>

theorem zero_intensity_changes_pixel:
  "coefficients refSt tgtSt 0 sh =
     \<lparr> A_L = 1, B_L = 0, A_a = 1, B_a = 0, A_b = 1, B_b = 0, crushMin = crushMinFactor sh \<rparr> \<and>
   transferLab (coefficients refSt tgtSt 0 sh) (l, a, b) =
     (shadowCrush (crushMinFactor sh) (contrastLift l), a, b) \<and>
   ((\<forall>x. shadowCrush (crushMinFactor sh) x = x) \<longleftrightarrow> sh = 0) \<and>
   processImageBuffer [[10, 10, 10, 255]] \<lparr> data = 0, width = 1, height = 1 \<rparr> refSt tgtSt 0 None =
     ([[10, 10, 10, 255], [0, 0, 0, 255]], \<lparr> data = 1, width = 1, height = 1 \<rparr>) \<and>
   processImageBuffer [[10, 10, 10, 255]] \<lparr> data = 0, width = 1, height = 1 \<rparr> refSt tgtSt 0 (Some 0) =
     ([[10, 10, 10, 255], [4, 4, 4, 255]], \<lparr> data = 1, width = 1, height = 1 \<rparr>) \<and>
   store cached ! ctx (the (imageCache cached 0)) = [10, 10, 10, 255] \<and>
   resultUrl (results (timerFires (handleIntensityChange cached 0 0) 0) ! 0) = [0, 0, 0, 255]"
proof -
  have "coefficients refSt tgtSt 0 sh =
     \<lparr> A_L = 1, B_L = 0, A_a = 1, B_a = 0, A_b = 1, B_b = 0, crushMin = crushMinFactor sh \<rparr>"
    by (simp add: coefficients_def intensity_k_def Let_def)
  moreover have "processImageBuffer [[10, 10, 10, 255]] \<lparr> data = 0, width = 1, height = 1 \<rparr> refSt tgtSt 0 None =
     ([[10, 10, 10, 255], [0, 0, 0, 255]], \<lparr> data = 1, width = 1, height = 1 \<rparr>)"
    by (simp add: processImageBuffer_unfold export_px10)
  moreover have "processImageBuffer [[10, 10, 10, 255]] \<lparr> data = 0, width = 1, height = 1 \<rparr> refSt tgtSt 0 (Some 0) =
     ([[10, 10, 10, 255], [4, 4, 4, 255]], \<lparr> data = 1, width = 1, height = 1 \<rparr>)"
    by (simp add: processImageBuffer_unfold preview_px10)
  moreover have "store cached ! ctx (the (imageCache cached 0)) = [10, 10, 10, 255]"
    by (simp add: cached_def)
  moreover have "resultUrl (results (timerFires (handleIntensityChange cached 0 0) 0) ! 0) = [0, 0, 0, 255]"
    using slider_to_zero by simp
  moreover have "(\<forall>x. shadowCrush (crushMinFactor sh) x = x) \<longleftrightarrow> sh = 0"
  proof
    assume "\<forall>x. shadowCrush (crushMinFactor sh) x = x"
    then have "shadowCrush (crushMinFactor sh) (13 / 40) = 13 / 40" by blast
    then have "520 * crushMinFactor sh + (520 - 520 * crushMinFactor sh) / 2 = 520"
      by (simp add: shadowCrush_def)
    then have "crushMinFactor sh = 1" by (simp add: field_simps)
    then show "sh = 0" by (simp add: crushMinFactor_def max_def split: if_splits)
  next
    assume "sh = 0"
    then show "\<forall>x. shadowCrush (crushMinFactor sh) x = x"
      by (simp add: crushMinFactor_def shadowCrush_no_crush)
  qed
  ultimately show ?thesis using zero_lab [of refSt tgtSt sh l a b] by blast
qed

subsection \<open>C2: highlights\<close>

text \<open>
  C2, as stated: a white pixel stays white, whatever the statistics and parameters. It
  does not: with the statistics of a black reference, a target mean lightness of 1,
  intensity 100 and shadow strength 100, the red channel of the transformed white pixel
  is at most 10. The masking weight acts on the chroma channels only.
\<close>

theorem highlight_counterexample:
  "transferPixel (coefficients blackStats brightStats 100 100) (255, 255, 255) \<noteq> (255, 255, 255)"
proof -
  obtain cl cm cs where lab: "rgb2oklab 255 255 255 =
            (0.2104542553 * cl + 0.7936177850 * cm - 0.0040720468 * cs,
             1.9779984951 * cl - 2.4285922050 * cm + 0.4505937099 * cs,
             0.0259040371 * cl + 0.7827717662 * cm - 0.8086757660 * cs)"
    and c: "0.9999999999 \<le> cl" "cl \<le> 1" "0.9999999999 \<le> cm" "cm \<le> 1" "0.9999999999 \<le> cs" "cs \<le> 1"
    using white_lab by blast
  define L where "L = 0.2104542553 * cl + 0.7936177850 * cm - 0.0040720468 * cs"
  define a where "a = 1.9779984951 * cl - 2.4285922050 * cm + 0.4505937099 * cs"
  define b where "b = 0.0259040371 * cl + 0.7827717662 * cm - 0.8086757660 * cs"
  define l1 where "l1 = contrastLift (L - 40 / 57)"
  have l1: "0.27807 \<le> l1" "l1 \<le> 0.27808"
    using c unfolding l1_def L_def contrastLift_def by (simp_all add: field_simps)
  have ab: "- (1 / 10 ^ 7) \<le> a" "a \<le> 1 / 10 ^ 7" "- (1 / 10 ^ 7) \<le> b" "b \<le> 1 / 10 ^ 7"
    using c unfolding a_def b_def by (simp_all add: field_simps)
  define l_new where "l_new = l1 * l1 / 0.65"
  have l1_pos: "0 \<le> l1" using l1 by simp
  have sq1: "0.27807 * 0.27807 \<le> l1 * l1"
    by (rule mult_mono [OF l1(1) l1(1) l1_pos]) simp
  have sq2: "l1 * l1 \<le> 0.27808 * 0.27808"
    by (rule mult_mono [OF l1(2) l1(2) _ l1_pos]) simp
  note sq = sq1 sq2
  have ln: "0.11895 \<le> l_new" "l_new \<le> 0.11897"
    using sq unfolding l_new_def by (simp_all add: field_simps)
  have tl: "transferLab (coefficients blackStats brightStats 100 100) (rgb2lab 255 255 255) = (l_new, a, b)"
  proof -
    have lab': "rgb2lab 255 255 255 = (L, a, b)"
      unfolding rgb2lab_def lab L_def a_def b_def by (rule refl)
    have "contrastLift (L - 40 / 57) < 0.65" using l1(2) unfolding l1_def by simp
    from dark_transferLab [OF this] show ?thesis
      unfolding lab' l_new_def l1_def by simp
  qed
  have l: "0.1189 \<le> l_new + 0.3963377774 * a + 0.2158037573 * b" "l_new + 0.3963377774 * a + 0.2158037573 * b \<le> 0.1190"
    using ln ab by (simp_all add: field_simps)
  have m: "0.1189 \<le> l_new - 0.1055613458 * a - 0.0638541728 * b" "l_new - 0.1055613458 * a - 0.0638541728 * b \<le> 0.1190"
    using ln ab by (simp_all add: field_simps)
  have s: "0.1189 \<le> l_new - 0.0894841775 * a - 1.2914855480 * b" "l_new - 0.0894841775 * a - 1.2914855480 * b \<le> 0.1190"
    using ln ab by (simp_all add: field_simps)
  obtain rL gL bL where o: "oklab2rgb l_new a b = (linearToSRGB rL, linearToSRGB gL, linearToSRGB bL)"
    and u: "rL \<le> 0.0031308"
  proof -
    have "4.3077115913 * (0.1190::real) ^ 3 - 3.3077115913 * 0.1189 ^ 3 \<le> 0.0031308"
      "2.6097574011 * (0.1190::real) ^ 3 - 1.6097574011 * 0.1189 ^ 3 \<le> 0.0031308"
      "1.7076147010 * (0.1190::real) ^ 3 - 0.7076147010 * 0.1189 ^ 3 \<le> 0.0031308"
      by (simp_all add: power3_eq_cube)
    from oklab2rgb_linear_upper [OF _ l m s this] that show ?thesis by auto
  qed
  have "fst (transferPixel (coefficients blackStats brightStats 100 100) (255, 255, 255)) = linearToSRGB rL"
    by (simp add: transferPixel_def tl lab2rgb_def o)
  with linearToSRGB_le_10 [OF u] show ?thesis by auto
qed

text \<open>
  C2, amended: the masking weight blends the two chroma channels between the original and
  the candidate value and does not enter the lightness. For the white pixel the weight
  is positive and at most \<open>7 / 10^8\<close>; it is 0 from a lightness of 1 on. The new lightness
  is the shadow curve of the contrast lift of the scaled and shifted lightness, at every
  lightness.
\<close>

theorem highlight_masks_chroma_only:
  "0 < maskWeight (fst (rgb2lab 255 255 255)) \<and> maskWeight (fst (rgb2lab 255 255 255)) \<le> 7 / 10 ^ 8 \<and>
   (1 \<le> l \<longrightarrow> maskWeight l = 0) \<and>
   fst (snd (transferLab c (l, a, b))) = a + (a * A_a c + B_a c - a) * maskWeight l \<and>
   snd (snd (transferLab c (l, a, b))) = b + (b * A_b c + B_b c - b) * maskWeight l \<and>
   fst (transferLab c (l, a, b)) = shadowCrush (crushMin c) (contrastLift (l * A_L c + B_L c))"
  using maskWeight_white by (simp add: transferLab_def Let_def maskWeight_def)

theorem highlight_masks_chroma_only_witness:
  "(1::real) \<le> 1 \<and> maskWeight 1 = 0 \<and>
   fst (snd (transferLab (coefficients blackStats brightStats 100 100) (1, 1 / 10, 1 / 10))) = 1 / 10 \<and>
   snd (snd (transferLab (coefficients blackStats brightStats 100 100) (1, 1 / 10, 1 / 10))) = 1 / 10"
  using highlight_masks_chroma_only [of 1 "coefficients blackStats brightStats 100 100" "1 / 10" "1 / 10"]
  by simp

subsection \<open>C3: round trip of the converter\<close>

text \<open>
  C3: for every triple of 8-bit channel values, converting to the working space and back
  returns the same triple. The stated inverse matrices are inverse to the forward ones
  up to \<open>8 / 10^8\<close>, which the cube and the first inverse matrix amplify to less than
  \<open>3 / 10^6\<close> on the linear values; the rounding of the transfer function absorbs that.
\<close>

theorem round_trip:
  "(case rgb2lab r g b of (L, a, b') \<Rightarrow> lab2rgb L a b') = (uint r, uint g, uint b)"
proof -
  define R G B where "R = TABLE_sRGBToLinear r" and "G = TABLE_sRGBToLinear g" and "B = TABLE_sRGBToLinear b"
  have rng: "0 \<le> R" "R \<le> 1" "0 \<le> G" "G \<le> 1" "0 \<le> B" "B \<le> 1"
    using TABLE_range [of r] TABLE_range [of g] TABLE_range [of b] by (simp_all add: R_def G_def B_def)
  define l1 m1 s1 where "l1 = 0.4122214708 * R + 0.5363325363 * G + 0.0514459929 * B"
    and "m1 = 0.2119034982 * R + 0.6806995451 * G + 0.1073969566 * B"
    and "s1 = 0.0883024619 * R + 0.2817188376 * G + 0.6299787005 * B"
  have lms: "0 \<le> l1" "l1 \<le> 1" "0 \<le> m1" "m1 \<le> 1" "0 \<le> s1" "s1 \<le> 1"
    using rng unfolding l1_def m1_def s1_def by (simp_all add: field_simps)
  define cl cm cs where "cl = root 3 l1" and "cm = root 3 m1" and "cs = root 3 s1"
  have c: "0 \<le> cl" "cl \<le> 1" "0 \<le> cm" "cm \<le> 1" "0 \<le> cs" "cs \<le> 1"
    and c3: "cl ^ 3 = l1" "cm ^ 3 = m1" "cs ^ 3 = s1"
    using cone_response [OF lms(1,2)] cone_response [OF lms(3,4)] cone_response [OF lms(5,6)]
    by (simp_all add: cl_def cm_def cs_def)
  define L a b' where "L = 0.2104542553 * cl + 0.7936177850 * cm - 0.0040720468 * cs"
    and "a = 1.9779984951 * cl - 2.4285922050 * cm + 0.4505937099 * cs"
    and "b' = 0.0259040371 * cl + 0.7827717662 * cm - 0.8086757660 * cs"
  have fwd: "rgb2lab r g b = (L, a, b')"
    unfolding rgb2lab_def rgb2oklab_def Let_def L_def a_def b'_def cl_def cm_def cs_def
      l1_def m1_def s1_def R_def G_def B_def by (rule refl)
  define dl dm ds where "dl = L + 0.3963377774 * a + 0.2158037573 * b' - cl"
    and "dm = L - 0.1055613458 * a - 0.0638541728 * b' - cm"
    and "ds = L - 0.0894841775 * a - 1.2914855480 * b' - cs"
  have d: "\<bar>dl\<bar> \<le> 8 / 10 ^ 8" "\<bar>dm\<bar> \<le> 8 / 10 ^ 8" "\<bar>ds\<bar> \<le> 8 / 10 ^ 8"
    unfolding dl_def dm_def ds_def L_def a_def b'_def by (rule lab_lms_roundtrip [OF c])+
  define el em es where "el = (cl + dl) * (cl + dl) * (cl + dl) - l1"
    and "em = (cm + dm) * (cm + dm) * (cm + dm) - m1"
    and "es = (cs + ds) * (cs + ds) * (cs + ds) - s1"
  have e: "\<bar>el\<bar> \<le> 25 / 10 ^ 8" "\<bar>em\<bar> \<le> 25 / 10 ^ 8" "\<bar>es\<bar> \<le> 25 / 10 ^ 8"
    using cube_perturb [OF c(1,2) d(1)] cube_perturb [OF c(3,4) d(2)] cube_perturb [OF c(5,6) d(3)]
    unfolding el_def em_def es_def c3 by simp_all
  define rL gL bL where "rL = 4.0767416621 * (l1 + el) - 3.3077115913 * (m1 + em) + 0.2309699292 * (s1 + es)"
    and "gL = -1.2684380046 * (l1 + el) + 2.6097574011 * (m1 + em) - 0.3413193965 * (s1 + es)"
    and "bL = -0.0041960863 * (l1 + el) - 0.7034186147 * (m1 + em) + 1.7076147010 * (s1 + es)"
  have near: "\<bar>rL - R\<bar> \<le> 3 / 10 ^ 6" "\<bar>gL - G\<bar> \<le> 3 / 10 ^ 6" "\<bar>bL - B\<bar> \<le> 3 / 10 ^ 6"
    unfolding rL_def gL_def bL_def l1_def m1_def s1_def by (rule lms_rgb_roundtrip [OF rng e])+
  have cubes: "l1 + el = (cl + dl) * (cl + dl) * (cl + dl)" "m1 + em = (cm + dm) * (cm + dm) * (cm + dm)"
    "s1 + es = (cs + ds) * (cs + ds) * (cs + ds)"
    by (simp_all add: el_def em_def es_def)
  have sums: "cl + dl = L + 0.3963377774 * a + 0.2158037573 * b'"
    "cm + dm = L - 0.1055613458 * a - 0.0638541728 * b'"
    "cs + ds = L - 0.0894841775 * a - 1.2914855480 * b'"
    by (simp_all add: dl_def dm_def ds_def)
  have bwd: "lab2rgb L a b' = (linearToSRGB rL, linearToSRGB gL, linearToSRGB bL)"
    unfolding lab2rgb_def oklab2rgb_def Let_def rL_def gL_def bL_def cubes sums by (rule refl)
  have "linearToSRGB (R + (rL - R)) = uint r" "linearToSRGB (G + (gL - G)) = uint g"
    "linearToSRGB (B + (bL - B)) = uint b"
    unfolding R_def G_def B_def
    by (rule gamma_roundtrip [OF near(1) [unfolded R_def]],
        rule gamma_roundtrip [OF near(2) [unfolded G_def]],
        rule gamma_roundtrip [OF near(3) [unfolded B_def]])
  then have "linearToSRGB rL = uint r" "linearToSRGB gL = uint g" "linearToSRGB bL = uint b" by simp_all
  then show ?thesis by (simp add: fwd bwd)
qed

subsection \<open>C4: the raw scale\<close>

text \<open>
  C4, as stated: the raw scale of every channel lies in \<open>[1/3, 3]\<close>. It does not: with a
  reference deviation of \<open>0.01\<close> and a target deviation of \<open>0.5\<close> the raw scale is
  \<open>0.02\<close>. The source caps the ratio from above only (\<^verbatim>\<open>Math.min(SCALE_CAP, ...)\<close>).
\<close>

theorem scale_lower_bound_counterexample:
  "\<not> (1 / 3 \<le> rawScale (1 / 100) (1 / 2))"
  by (simp add: rawScale_def effectiveRefStd_def REF_STD_CAP_def SCALE_CAP_def)

text \<open>
  C4, amended: the raw scale is the ratio of the capped reference deviation to the target
  deviation, cut off at 3, when the target deviation exceeds \<open>0.01\<close>, and 1 otherwise. It
  never exceeds 3, it equals the ratio whenever the ratio is at most 3, and it is
  non-negative for a non-negative reference deviation; no positive lower bound is enforced.
\<close>

theorem scale_capped_above:
  "rawScale refStd tgtStd = (if tgtStd > 0.01 then min 3 (min refStd 0.18 / tgtStd) else 1) \<and>
   rawScale refStd tgtStd \<le> 3 \<and>
   (0 \<le> refStd \<longrightarrow> 0 \<le> rawScale refStd tgtStd) \<and>
   (tgtStd > 0.01 \<and> min refStd 0.18 / tgtStd \<le> 3 \<longrightarrow> rawScale refStd tgtStd = min refStd 0.18 / tgtStd)"
  by (auto simp add: rawScale_def effectiveRefStd_def REF_STD_CAP_def SCALE_CAP_def min_def)

theorem scale_capped_above_witness:
  "rawScale (1 / 100) (1 / 2) = 1 / 50 \<and> rawScale (1 / 100) (1 / 2) \<le> 3 \<and> 0 \<le> rawScale (1 / 100) (1 / 2)"
  using scale_capped_above [of "1 / 100" "1 / 2"] by simp

subsection \<open>C5: the exclusion of extreme pixels\<close>

text \<open>
  C5, as stated: the caller chooses, by a flag, whether extreme pixels are excluded. No
  revision has such a parameter. On an image of one white pixel the latest extractor
  samples the pixel, which is not what the specification's extractor does with the flag
  set; the earlier extractor drops it, which is not what the specification's extractor
  does with the flag cleared.
\<close>

theorem exclusion_flag_counterexample:
  "statsLoop 0 [255, 255, 255, 255] ([], [], []) \<noteq> labs rgb2lab (spec_population True [255, 255, 255, 255]) \<and>
   statsLoop_legacy 0 [255, 255, 255, 255] ([], [], []) \<noteq> labs rgb2lab_legacy (spec_population False [255, 255, 255, 255])"
proof -
  have m: "length [255, 255, 255, 255 :: byte] mod 4 = 0" by simp
  have x: "spec_extreme (255, 255, 255)" by (simp add: spec_extreme_def)
  have "statsLoop 0 [255, 255, 255, 255] ([], [], []) = labs rgb2lab [(255, 255, 255)]"
    using statsLoop_pixels [of "[255, 255, 255, 255]" 0 "[]" "[]" "[]"] by simp
  moreover have "statsLoop_legacy 0 [255, 255, 255, 255] ([], [], []) = labs rgb2lab_legacy []"
    using statsLoop_legacy_pixels [of "[255, 255, 255, 255]" 0 "[]" "[]" "[]"] x by simp
  ultimately show ?thesis
    using x by (simp add: spec_population_def labs_def)
qed

text \<open>
  C5, amended: the extractor has no flag. In the latest revision it samples every pixel of
  the image, one entry per pixel, which is the specification's extractor with the flag
  cleared; in the earlier revision it always leaves out the pixels whose three channels
  are all above 250 or all below 5, which is the specification's extractor with the
  flag set.
\<close>

theorem extractor_population:
  assumes "length dat mod 4 = 0"
  shows "statsLoop 0 dat ([], [], []) = labs rgb2lab (spec_population False dat) \<and>
         length (spec_population False dat) = length dat div 4 \<and>
         statsLoop_legacy 0 dat ([], [], []) = labs rgb2lab_legacy (spec_population True dat)"
  using assms statsLoop_pixels [of dat 0 "[]" "[]" "[]"] statsLoop_legacy_pixels [of dat 0 "[]" "[]" "[]"]
  by (simp add: spec_population_def length_pixelsOf)

theorem extractor_population_witness:
  "length [255, 255, 255, 255 :: byte] mod 4 = 0 \<and>
   statsLoop 0 [255, 255, 255, 255] ([], [], []) = labs rgb2lab [(255, 255, 255)] \<and>
   statsLoop_legacy 0 [255, 255, 255, 255] ([], [], []) = labs rgb2lab_legacy []"
proof -
  have m: "length [255, 255, 255, 255 :: byte] mod 4 = 0" by simp
  have x: "spec_extreme (255, 255, 255)" by (simp add: spec_extreme_def)
  from extractor_population [OF m] m x show ?thesis by (simp add: spec_population_def)
qed

subsection \<open>C6: degenerate statistics\<close>

text \<open>
  C6: \<^verbatim>\<open>computeStats\<close> throws where its first statement, the canvas read, throws: on a
  canvas whose width or height is 0, in both revisions. An image the loader accepts
  leads there: an image of 6001 by 1 pixels is resized to a canvas of 3000 by 0, on which
  \<^verbatim>\<open>computeStats\<close> throws, and with that image as the reference the export ends with the
  error message and without a file. On a canvas of positive area \<^verbatim>\<open>computeStats\<close>
  returns the statistics of the canvas pixels. The fallback \<open>mean = [0,0,0]\<close>,
  \<open>std = [1,1,1]\<close> is what the statements after the canvas read return for an empty array;
  no canvas read returns one, since the loop of the latest revision samples at least one
  pixel of an array of \<open>4 * w * hg\<close> elements with \<open>w\<close> and \<open>hg\<close> positive. The three
  deviations of the statistics of an array are never negative.
\<close>

theorem computeStats_throws_on_empty_canvas:
  "computeStats h c w 0 = Inl IndexSizeError \<and>
   computeStats h c 0 hg = Inl IndexSizeError \<and>
   computeStats_legacy h c w 0 = Inl IndexSizeError \<and>
   computeStats_legacy h c 0 hg = Inl IndexSizeError \<and>
   (case resizeImageCanvas draw h \<lparr> file_name = n, url = u, element = a, img_width = 6001, img_height = 1 \<rparr>
           RESIZE_LONG_EDGE of
      (h1, cv) \<Rightarrow> canvas_width cv = 3000 \<and> canvas_height cv = 0 \<and>
        computeStats h1 (ctx cv) (canvas_width cv) (canvas_height cv) = Inl IndexSizeError) \<and>
   (reference s = Some \<lparr> file_name = n, url = u, element = a, img_width = 6001, img_height = 1 \<rparr> \<and>
    targets s \<noteq> [] \<and> results s \<noteq> [] \<longrightarrow>
      errorMessage (fst (handleDownloadZip draw s)) = Some msgZipFail \<and> snd (handleDownloadZip draw s) = []) \<and>
   (0 < w \<and> 0 < hg \<longrightarrow> computeStats h c w hg = Inr (h @ [h ! c], statsOfData (h ! c))) \<and>
   (0 < w \<and> 0 < hg \<and> length dat = 4 * w * hg \<longrightarrow> fst (statsLoop 0 dat ([], [], [])) \<noteq> []) \<and>
   statsOfData [] = \<lparr> mean = (0, 0, 0), std = (1, 1, 1) \<rparr> \<and>
   0 \<le> ix0 (std (statsOfData dat)) \<and> 0 \<le> ix1 (std (statsOfData dat)) \<and> 0 \<le> ix2 (std (statsOfData dat))"
proof -
  have dead: "fst (statsLoop 0 dat ([], [], [])) \<noteq> []" if "0 < w" "0 < hg" "length dat = 4 * w * hg"
  proof -
    have "length (fst (statsLoop 0 dat ([], [], []))) = w * hg"
      using statsLoop_count [of dat] that(3) by simp
    then show ?thesis using that(1,2) by auto
  qed
  have thin: "(case resizeImageCanvas draw h \<lparr> file_name = n, url = u, element = a, img_width = 6001, img_height = 1 \<rparr>
           RESIZE_LONG_EDGE of
      (h1, cv) \<Rightarrow> canvas_width cv = 3000 \<and> canvas_height cv = 0 \<and>
        computeStats h1 (ctx cv) (canvas_width cv) (canvas_height cv) = Inl IndexSizeError)"
    unfolding resize_thin by (simp add: computeStats_def getImageData_def)
  have throws: "computeStats h c w 0 = Inl IndexSizeError" "computeStats h c 0 hg = Inl IndexSizeError"
    "computeStats_legacy h c w 0 = Inl IndexSizeError" "computeStats_legacy h c 0 hg = Inl IndexSizeError"
    by (simp_all add: computeStats_def computeStats_legacy_def getImageData_def)
  have returns: "0 < w \<and> 0 < hg \<longrightarrow> computeStats h c w hg = Inr (h @ [h ! c], statsOfData (h ! c))"
    by (simp add: computeStats_pos)
  have sentinel: "statsOfData [] = \<lparr> mean = (0, 0, 0), std = (1, 1, 1) \<rparr>"
    by (simp add: statsOfData_def statsLoop_Nil)
  from dead thin throws returns sentinel zip_thin_reference [of s n u a draw] statsOfData_std_nonneg [of dat]
  show ?thesis by blast
qed

theorem computeStats_throws_on_empty_canvas_witness:
  "(0::nat) < 1 \<and>
   computeStats [[0, 0, 0, 255]] 0 1 1 = Inr ([[0, 0, 0, 255], [0, 0, 0, 255]], statsOfData [0, 0, 0, 255]) \<and>
   length [0, 0, 0, 255 :: byte] = 4 * 1 * 1 \<and>
   fst (statsLoop 0 [0, 0, 0, 255] ([], [], [])) \<noteq> [] \<and>
   computeStats [[0, 0, 0, 255]] 0 3000 0 = Inl IndexSizeError \<and>
   reference (uncached\<lparr> reference := Some (img0\<lparr> img_width := 6001 \<rparr>) \<rparr>) =
     Some \<lparr> file_name = ''a.jpg'', url = ''blob:a'', element = 0, img_width = 6001, img_height = 1 \<rparr> \<and>
   targets (uncached\<lparr> reference := Some (img0\<lparr> img_width := 6001 \<rparr>) \<rparr>) \<noteq> [] \<and>
   results (uncached\<lparr> reference := Some (img0\<lparr> img_width := 6001 \<rparr>) \<rparr>) \<noteq> [] \<and>
   errorMessage (fst (handleDownloadZip copyDraw (uncached\<lparr> reference := Some (img0\<lparr> img_width := 6001 \<rparr>) \<rparr>))) =
     Some msgZipFail \<and>
   snd (handleDownloadZip copyDraw (uncached\<lparr> reference := Some (img0\<lparr> img_width := 6001 \<rparr>) \<rparr>)) = []"
proof -
  have r: "reference (uncached\<lparr> reference := Some (img0\<lparr> img_width := 6001 \<rparr>) \<rparr>) =
     Some \<lparr> file_name = ''a.jpg'', url = ''blob:a'', element = 0, img_width = 6001, img_height = 1 \<rparr>"
    "targets (uncached\<lparr> reference := Some (img0\<lparr> img_width := 6001 \<rparr>) \<rparr>) \<noteq> []"
    "results (uncached\<lparr> reference := Some (img0\<lparr> img_width := 6001 \<rparr>) \<rparr>) \<noteq> []"
    by (simp_all add: uncached_def img0_def)
  from computeStats_throws_on_empty_canvas [of "[[0, 0, 0, 255]]" 0 3000 1 copyDraw "''a.jpg''" "''blob:a''" 0
      "uncached\<lparr> reference := Some (img0\<lparr> img_width := 6001 \<rparr>) \<rparr>" "[0, 0, 0, 255]"]
    computeStats_throws_on_empty_canvas [of "[[0, 0, 0, 255]]" 0 1 1 copyDraw "''a.jpg''" "''blob:a''" 0
      "uncached\<lparr> reference := Some (img0\<lparr> img_width := 6001 \<rparr>) \<rparr>" "[0, 0, 0, 255]"] r
  show ?thesis by simp
qed

subsection \<open>C7: boundary safety\<close>

text \<open>
  C7 speaks of \<^verbatim>\<open>NaN\<close> and of overflow. Both belong to the arithmetic of IEEE doubles;
  the colour engine is modelled on the real numbers, where a product cannot overflow and
  no operation yields \<^verbatim>\<open>NaN\<close>. The claim therefore has no statement over this model, and
  none is given.
\<close>

subsection \<open>C8: frame condition\<close>

text \<open>
  C8: \<^verbatim>\<open>processImageBuffer\<close> allocates one new array and leaves every array that existed
  before, the input among them, as it was. The result refers to the new array, has the
  width and height of the input and the same number of elements, and the alpha element
  of every pixel is the input's.
\<close>

theorem frame_condition:
  assumes wf: "wf_ImageData h imgData"
    and run: "processImageBuffer h imgData refSt tgtSt inten sh = (h', output)"
  shows "length h' = length h + 1 \<and> (\<forall>a < length h. h' ! a = h ! a) \<and>
         data output = length h \<and> data output \<noteq> data imgData \<and>
         width output = width imgData \<and> height output = height imgData \<and>
         wf_ImageData h' output \<and>
         (\<forall>p < width imgData * height imgData.
            (h' ! data output) ! (4 * p + 3) = (h ! data imgData) ! (4 * p + 3))"
proof -
  let ?c = "coefficients refSt tgtSt inten (case sh of None \<Rightarrow> 50 | Some s \<Rightarrow> s)"
  let ?src = "h ! data imgData"
  from run have h': "h' = (h @ [?src])[length h := pixelLoop ?c 0 ?src]"
    and out: "output = \<lparr> data = length h, width = width imgData, height = height imgData \<rparr>"
    by (simp_all add: processImageBuffer_unfold)
  from wf have lt: "data imgData < length h" and len: "length ?src = 4 * width imgData * height imgData"
    by (simp_all add: wf_ImageData_def)
  have new: "h' ! length h = pixelLoop ?c 0 ?src" by (simp add: h')
  have old: "\<forall>a < length h. h' ! a = h ! a" by (simp add: h' nth_append)
  have alpha: "\<forall>p < width imgData * height imgData. pixelLoop ?c 0 ?src ! (4 * p + 3) = ?src ! (4 * p + 3)"
  proof (intro allI impI)
    fix p
    have "(4 * p + 3) mod 4 = (3::nat)" by presburger
    then show "pixelLoop ?c 0 ?src ! (4 * p + 3) = ?src ! (4 * p + 3)"
      by (intro pixelLoop_alpha) simp_all
  qed
  show ?thesis
    using lt len old alpha by (simp add: out new wf_ImageData_def pixelLoop_length) (simp add: h')
qed

theorem frame_condition_witness:
  "wf_ImageData [[0, 0, 0, 255]] \<lparr> data = 0, width = 1, height = 1 \<rparr> \<and>
   processImageBuffer [[0, 0, 0, 255]] \<lparr> data = 0, width = 1, height = 1 \<rparr> fallbackStats fallbackStats 50 (Some 50)
     = ([[0, 0, 0, 255], [0, 0, 0, 255]], \<lparr> data = 1, width = 1, height = 1 \<rparr>) \<and>
   [[0, 0, 0, 255], [0, 0, 0, 255 :: byte]] ! 1 ! 3 = [[0, 0, 0, 255 :: byte]] ! 0 ! 3"
proof -
  have wf: "wf_ImageData [[0, 0, 0, 255]] \<lparr> data = 0, width = 1, height = 1 \<rparr>"
    by (simp add: wf_ImageData_def)
  from frame_condition [OF wf black_image] wf black_image show ?thesis by simp
qed

subsection \<open>C9: a slider moved for an image without cache entry\<close>

text \<open>
  C9, as stated: re-processing an image that has no cache entry signals an error. It does
  not: in the state \<open>uncached\<close> the cache is empty, and after either slider of image 0 is
  moved and its timer has fired no error message is set.
\<close>

theorem cache_miss_counterexample:
  "imageCache uncached 0 = None \<and>
   errorMessage (timerFires (handleIntensityChange uncached 0 70) 0) = None \<and>
   errorMessage (timerFires (handleShadowChange uncached 0 70) 0) = None"
  by (simp add: uncached_def timerFires_def handleIntensityChange_def handleShadowChange_def reprocess_def)

text \<open>
  C9, amended: when the image has no cache entry, the timer callback returns without doing
  anything. The slider value written by the handler stays in \<open>results\<close>, the pending
  timer is consumed, and nothing else changes: no result image is replaced and the
  error message is the one from before.
\<close>

theorem cache_miss_silent:
  assumes "imageCache s i = None"
  shows "reprocess s i p = s \<and>
         timerFires (handleIntensityChange s i val) i = (handleIntensityChange s i val)\<lparr> workerRef := (workerRef s)(i := None) \<rparr> \<and>
         timerFires (handleShadowChange s i val) i = (handleShadowChange s i val)\<lparr> workerRef := (workerRef s)(i := None) \<rparr> \<and>
         errorMessage (timerFires (handleIntensityChange s i val) i) = errorMessage s \<and>
         errorMessage (timerFires (handleShadowChange s i val) i) = errorMessage s"
  using assms
  by (simp add: timerFires_def handleIntensityChange_def handleShadowChange_def reprocess_def)

theorem cache_miss_silent_witness:
  "imageCache uncached 0 = None \<and>
   reprocess uncached 0 \<lparr> job = IntensityJob 70, seen_targets = [img0], seen_results = [res0] \<rparr> = uncached \<and>
   results (timerFires (handleIntensityChange uncached 0 70) 0) = [res0\<lparr> intensity := 70 \<rparr>]"
proof -
  have h: "imageCache uncached 0 = None" by (simp add: uncached_def)
  from cache_miss_silent [OF h, of "\<lparr> job = IntensityJob 70, seen_targets = [img0], seen_results = [res0] \<rparr>" 70] h
  show ?thesis
    by (simp add: handleIntensityChange_def) (simp add: uncached_def res0_def)
qed

subsection \<open>C10: the export ignores the shadow slider\<close>

text \<open>
  C10: whenever the resized canvas has a positive area, the export of an image succeeds and
  the exported array is the pixel loop run on the resized target with the coefficients
  made of the reference statistics, the statistics of the resized target, the intensity
  of the result entry, and shadow strength 50. The export does not depend on the
  \<open>shadow\<close> value of the result entry, and the files of \<^verbatim>\<open>handleDownloadZip\<close> do not
  depend on the \<open>shadow\<close> values of the result entries: the call omits the argument, and
  an omitted argument means 50. Whenever the shadow value differs from 50, the
  coefficients of the preview differ from the export's in the floor of the shadow curve,
  the two curves differ at every lightness strictly between 0 and 0.65, and, for an
  intensity in \<open>[0, 100]\<close> and a non-negative reference deviation of the lightness, the
  two working-space transforms are different functions. On the one-pixel image
  \<open>(10, 10, 10, 255)\<close> at intensity 0 the transform with shadow strength 0 gives
  \<open>(4, 4, 4, 255)\<close> and the transform of the export gives \<open>(0, 0, 0, 255)\<close>. (In this
  revision the shadow slider of the interface is commented out, so that only
  \<^verbatim>\<open>handleShadowChange\<close> gives a result entry a shadow value other than 50.)
\<close>

theorem export_ignores_shadow:
  "(case resizeImageCanvas draw h tgt RESIZE_LONG_EDGE of
      (h1, cv) \<Rightarrow>
        0 < canvas_width cv \<and> 0 < canvas_height cv \<longrightarrow>
          (\<exists>h' out. exportImage draw h refSt tgt res = Inr (h', out) \<and>
             h' ! data out =
               pixelLoop (coefficients refSt (statsOfData (h1 ! ctx cv)) (intensity res) 50) 0 (h1 ! ctx cv) \<and>
             width out = canvas_width cv \<and> height out = canvas_height cv)) \<and>
   exportImage draw h refSt tgt (res\<lparr> shadow := s \<rparr>) = exportImage draw h refSt tgt res \<and>
   snd (handleDownloadZip draw (st\<lparr> results := map (\<lambda>r. r\<lparr> shadow := f r \<rparr>) (results st) \<rparr>)) =
     snd (handleDownloadZip draw st) \<and>
   processImageBuffer h imgData refSt tgtSt inten None = processImageBuffer h imgData refSt tgtSt inten (Some 50) \<and>
   (s \<noteq> 50 \<longrightarrow>
      coefficients refSt tgtSt inten s \<noteq> coefficients refSt tgtSt inten 50 \<and>
      crushMin (coefficients refSt tgtSt inten s) \<noteq> crushMin (coefficients refSt tgtSt inten 50) \<and>
      (\<forall>l. 0 < l \<and> l < 0.65 \<longrightarrow>
         shadowCrush (crushMin (coefficients refSt tgtSt inten s)) l \<noteq>
         shadowCrush (crushMin (coefficients refSt tgtSt inten 50)) l) \<and>
      (0 \<le> inten \<and> inten \<le> 100 \<and> 0 \<le> ix0 (std refSt) \<longrightarrow>
         transferLab (coefficients refSt tgtSt inten s) \<noteq> transferLab (coefficients refSt tgtSt inten 50))) \<and>
   processImageBuffer [[10, 10, 10, 255]] \<lparr> data = 0, width = 1, height = 1 \<rparr> refSt tgtSt 0 (Some 0) =
     ([[10, 10, 10, 255], [4, 4, 4, 255]], \<lparr> data = 1, width = 1, height = 1 \<rparr>) \<and>
   processImageBuffer [[10, 10, 10, 255]] \<lparr> data = 0, width = 1, height = 1 \<rparr> refSt tgtSt 0 None =
     ([[10, 10, 10, 255], [0, 0, 0, 255]], \<lparr> data = 1, width = 1, height = 1 \<rparr>)"
proof -
  let ?cs = "coefficients refSt tgtSt inten s" and ?c50 = "coefficients refSt tgtSt inten 50"
  have cm: "crushMin ?cs = crushMinFactor s" "crushMin ?c50 = crushMinFactor 50"
    by (simp_all add: coefficients_def Let_def)
  have same: "A_L ?cs = A_L ?c50" "B_L ?cs = B_L ?c50"
    by (simp_all add: coefficients_def Let_def)
  have 0: "(case resizeImageCanvas draw h tgt RESIZE_LONG_EDGE of
      (h1, cv) \<Rightarrow>
        0 < canvas_width cv \<and> 0 < canvas_height cv \<longrightarrow>
          (\<exists>h' out. exportImage draw h refSt tgt res = Inr (h', out) \<and>
             h' ! data out =
               pixelLoop (coefficients refSt (statsOfData (h1 ! ctx cv)) (intensity res) 50) 0 (h1 ! ctx cv) \<and>
             width out = canvas_width cv \<and> height out = canvas_height cv))"
  proof (cases "resizeImageCanvas draw h tgt RESIZE_LONG_EDGE")
    case (Pair h1 cv)
    show ?thesis
      unfolding Pair prod.case
    proof
      assume "0 < canvas_width cv \<and> 0 < canvas_height cv"
      then have pos: "0 < canvas_width cv" "0 < canvas_height cv" by simp_all
      show "\<exists>h' out. exportImage draw h refSt tgt res = Inr (h', out) \<and>
             h' ! data out =
               pixelLoop (coefficients refSt (statsOfData (h1 ! ctx cv)) (intensity res) 50) 0 (h1 ! ctx cv) \<and>
             width out = canvas_width cv \<and> height out = canvas_height cv"
        unfolding exportImage_pos [OF Pair pos] by (simp add: nth_append)
    qed
  qed
  have 1: "exportImage draw h refSt tgt (res\<lparr> shadow := s \<rparr>) = exportImage draw h refSt tgt res"
    by (rule exportImage_shadow)
  have 2: "processImageBuffer h imgData refSt tgtSt inten None = processImageBuffer h imgData refSt tgtSt inten (Some 50)"
    by (simp add: processImageBuffer_def)
  have 3: "transferLab ?cs \<noteq> transferLab ?c50"
    if s: "s \<noteq> 50" and r: "0 \<le> inten" "inten \<le> 100" "0 \<le> ix0 (std refSt)"
  proof
    assume eq: "transferLab ?cs = transferLab ?c50"
    have pos: "A_L ?c50 \<noteq> 0" using A_L_pos [OF r, of tgtSt 50] by simp
    define x :: real where "x = (0.3 - 0.5) / 1.1 + 0.5"
    define l where "l = (x - B_L ?c50) / A_L ?c50"
    have l: "l * A_L ?c50 + B_L ?c50 = x" using pos by (simp add: l_def)
    have cl: "contrastLift x = 0.3" by (simp add: x_def contrastLift_def)
    have "fst (transferLab ?cs (l, 0, 0)) = shadowCrush (crushMinFactor s) 0.3"
      by (simp add: transferLab_def Let_def same l cl cm)
    moreover have "fst (transferLab ?c50 (l, 0, 0)) = shadowCrush (crushMinFactor 50) 0.3"
      by (simp add: transferLab_def Let_def l cl cm)
    ultimately have "shadowCrush (crushMinFactor s) 0.3 = shadowCrush (crushMinFactor 50) 0.3"
      using eq by simp
    with shadowCrush_differs [OF s, of "0.3"] show False by simp
  qed
  have 4: "?cs \<noteq> ?c50" if "s \<noteq> 50"
    using crushMinFactor_50 [OF that] cm by auto
  have 5: "processImageBuffer [[10, 10, 10, 255]] \<lparr> data = 0, width = 1, height = 1 \<rparr> refSt tgtSt 0 (Some 0) =
     ([[10, 10, 10, 255], [4, 4, 4, 255]], \<lparr> data = 1, width = 1, height = 1 \<rparr>)"
    by (simp add: processImageBuffer_unfold preview_px10)
  have 6: "processImageBuffer [[10, 10, 10, 255]] \<lparr> data = 0, width = 1, height = 1 \<rparr> refSt tgtSt 0 None =
     ([[10, 10, 10, 255], [0, 0, 0, 255]], \<lparr> data = 1, width = 1, height = 1 \<rparr>)"
    by (simp add: processImageBuffer_unfold export_px10)
  have 7: "s \<noteq> 50 \<longrightarrow>
      ?cs \<noteq> ?c50 \<and> crushMin ?cs \<noteq> crushMin ?c50 \<and>
      (\<forall>l. 0 < l \<and> l < 0.65 \<longrightarrow> shadowCrush (crushMin ?cs) l \<noteq> shadowCrush (crushMin ?c50) l) \<and>
      (0 \<le> inten \<and> inten \<le> 100 \<and> 0 \<le> ix0 (std refSt) \<longrightarrow> transferLab ?cs \<noteq> transferLab ?c50)"
    using 3 4 crushMinFactor_50 shadowCrush_differs by (auto simp add: cm)
  from 0 1 2 5 6 7 handleDownloadZip_shadow [where draw = draw and s = st and f = f] show ?thesis by blast
qed

theorem export_ignores_shadow_witness:
  "resizeImageCanvas copyDraw [[10, 10, 10, 255]] img0 RESIZE_LONG_EDGE =
     ([[10, 10, 10, 255], [10, 10, 10, 255]], \<lparr> ctx = 1, canvas_width = 1, canvas_height = 1 \<rparr>) \<and>
   results (timerFires (handleShadowChange (timerFires (handleIntensityChange cached 0 0) 0) 0 0) 0) =
     [res0\<lparr> intensity := 0, shadow := 0, resultUrl := [4, 4, 4, 255] \<rparr>] \<and>
   snd (handleDownloadZip copyDraw
     (timerFires (handleShadowChange (timerFires (handleIntensityChange cached 0 0) 0) 0 0) 0)) = [[0, 0, 0, 255]] \<and>
   (\<exists>h' out. exportImage copyDraw [[10, 10, 10, 255]] (statsOfData [10, 10, 10, 255]) img0
                (res0\<lparr> intensity := 0, shadow := 0, resultUrl := [4, 4, 4, 255] \<rparr>) = Inr (h', out) \<and>
      h' ! data out = [0, 0, 0, 255] \<and> width out = 1 \<and> height out = 1) \<and>
   (0::real) \<noteq> 50 \<and> (0::real) \<le> 0 \<and> (0::real) \<le> 100 \<and> 0 \<le> ix0 (std fallbackStats) \<and>
   coefficients fallbackStats fallbackStats 0 0 \<noteq> coefficients fallbackStats fallbackStats 0 50 \<and>
   shadowCrush (crushMin (coefficients fallbackStats fallbackStats 0 0)) (1 / 2) \<noteq>
   shadowCrush (crushMin (coefficients fallbackStats fallbackStats 0 50)) (1 / 2) \<and>
   transferLab (coefficients fallbackStats fallbackStats 0 0) \<noteq> transferLab (coefficients fallbackStats fallbackStats 0 50)"
proof -
  have h: "0 \<le> ix0 (std fallbackStats)" by (simp add: fallbackStats_def ix0_def)
  have e: "intensity (res0\<lparr> intensity := 0, shadow := 0, resultUrl := [4, 4, 4, 255] \<rparr>) = 0" by simp
  have r: "results (timerFires (handleShadowChange (timerFires (handleIntensityChange cached 0 0) 0) 0 0) 0) =
     [res0\<lparr> intensity := 0, shadow := 0, resultUrl := [4, 4, 4, 255] \<rparr>]"
    unfolding sliders_state by simp
  have x: "\<exists>h' out. exportImage copyDraw [[10, 10, 10, 255]] (statsOfData [10, 10, 10, 255]) img0
                (res0\<lparr> intensity := 0, shadow := 0, resultUrl := [4, 4, 4, 255] \<rparr>) = Inr (h', out) \<and>
      h' ! data out = [0, 0, 0, 255] \<and> width out = 1 \<and> height out = 1"
    using export_ignores_shadow [where draw = copyDraw and h = "[[10, 10, 10, 255]]" and tgt = img0
        and refSt = "statsOfData [10, 10, 10, 255]"
        and res = "res0\<lparr> intensity := 0, shadow := 0, resultUrl := [4, 4, 4, 255] \<rparr>"
        and s = 0 and st = cached and f = "\<lambda>r. 0" and imgData = "\<lparr> data = 0, width = 1, height = 1 \<rparr>"
        and tgtSt = fallbackStats and inten = 0]
    unfolding resize_img0 e by (simp add: export_px10)
  from export_ignores_shadow [where draw = copyDraw and h = "[[10, 10, 10, 255]]" and tgt = img0
        and refSt = fallbackStats
        and res = "res0\<lparr> intensity := 0, shadow := 0, resultUrl := [4, 4, 4, 255] \<rparr>"
        and s = 0 and st = cached and f = "\<lambda>r. 0" and imgData = "\<lparr> data = 0, width = 1, height = 1 \<rparr>"
        and tgtSt = fallbackStats and inten = 0] h x resize_img0 r zip_after_sliders
  show ?thesis by simp
qed

end
